theory Spec2Isabelle
  imports Main "HOL-Library.Monad_Syntax" "HOL-Library.Sublist"
begin

text \<open>
  The webhook handlers of the repository: three versions of one \<^verbatim>\<open>POST\<close> route that
  takes a user event of the identity provider, checks it, and upserts a user row and
  the user's email rows. The first and the third version validate the body with a zod
  schema and share the normaliser and the loop over the email addresses; the second
  reads the body without a schema and writes the user row only. The versions are named
  by their order in the source: \<open>POST1\<close>, \<open>POST3\<close>, and for the second its upsert.
\<close>

section \<open>JavaScript values\<close>

text \<open>
  The handlers read the request with \<^verbatim>\<open>req.json()\<close>, so their input is a JSON
  value. Numbers stay abstract (the type parameter \<open>'n\<close>): the code only passes them to
  \<^verbatim>\<open>new Date\<close>. An object is the list of its members, each name once as
  \<^verbatim>\<open>req.json()\<close> returns it; a member is looked up by name with \<open>map_of\<close>, and a
  name that is not there reads as \<^verbatim>\<open>undefined\<close> (\<open>None\<close>).
\<close>

datatype 'n json =
    JNull
  | JBool bool
  | JNum 'n
  | JStr string
  | JArr "'n json list"
  | JObj "(string \<times> 'n json) list"

text \<open>
  A TypeScript value of type \<^verbatim>\<open>T | null | undefined\<close>. The zod schema decides which
  of the three a field may be; \<^verbatim>\<open>??\<close> and \<^verbatim>\<open>?.\<close> treat \<open>Null\<close> and
  \<open>Undefined\<close> alike, Prisma does not.
\<close>

datatype 'a js = Undefined | Null | Val 'a

text \<open>\<^verbatim>\<open>a ?? b\<close>\<close>

definition nullish :: "'a js \<Rightarrow> 'a js \<Rightarrow> 'a js" where
  "nullish a b = (case a of Val v \<Rightarrow> Val v | Null \<Rightarrow> b | Undefined \<Rightarrow> b)"

text \<open>\<^verbatim>\<open>a?.f\<close>\<close>

definition opt_chain :: "'b js \<Rightarrow> ('b \<Rightarrow> 'a js) \<Rightarrow> 'a js" where
  "opt_chain a f = (case a of Val v \<Rightarrow> f v | Null \<Rightarrow> Undefined | Undefined \<Rightarrow> Undefined)"

text \<open>\<^verbatim>\<open>a?.[0]\<close> on an array: an empty array has no element 0.\<close>

definition opt_first :: "'a list js \<Rightarrow> 'a js" where
  "opt_first a = (case a of Val (x # _) \<Rightarrow> Val x | Val [] \<Rightarrow> Undefined
                  | Null \<Rightarrow> Undefined | Undefined \<Rightarrow> Undefined)"

text \<open>Truthiness of an object-or-undefined value: an object is always truthy.\<close>

definition truthy :: "'a js \<Rightarrow> bool" where
  "truthy a = (case a of Val _ \<Rightarrow> True | Null \<Rightarrow> False | Undefined \<Rightarrow> False)"

section \<open>The zod schema combinators\<close>

text \<open>
  A schema is a function from the value found at a place (\<open>None\<close> when the member is
  absent) to the parsed value, \<open>None\<close> when \<^verbatim>\<open>safeParse\<close> reports an issue there.
  zod never coerces: a value of another type is an issue. The list of issues that
  \<^verbatim>\<open>safeParse\<close> returns on failure is not modelled. What \<^verbatim>\<open>.email()\<close> and
  \<^verbatim>\<open>.url()\<close> accept belongs to the zod library; the two predicates are parameters.
\<close>

record ('n, 'd) externals =
  isEmail :: "string \<Rightarrow> bool"
  isUrl :: "string \<Rightarrow> bool"
  newDate :: "'n \<Rightarrow> 'd"

definition z_string :: "'n json option \<Rightarrow> string option" where
  "z_string v = (case v of Some (JStr s) \<Rightarrow> Some s | _ \<Rightarrow> None)"

definition z_email :: "('n, 'd) externals \<Rightarrow> 'n json option \<Rightarrow> string option" where
  "z_email X v = (case z_string v of
                    Some s \<Rightarrow> if isEmail X s then Some s else None
                  | None \<Rightarrow> None)"

definition z_url :: "('n, 'd) externals \<Rightarrow> 'n json option \<Rightarrow> string option" where
  "z_url X v = (case z_string v of
                  Some s \<Rightarrow> if isUrl X s then Some s else None
                | None \<Rightarrow> None)"

definition z_number :: "'n json option \<Rightarrow> 'n option" where
  "z_number v = (case v of Some (JNum n) \<Rightarrow> Some n | _ \<Rightarrow> None)"

definition z_boolean :: "'n json option \<Rightarrow> bool option" where
  "z_boolean v = (case v of Some (JBool b) \<Rightarrow> Some b | _ \<Rightarrow> None)"

text \<open>\<^verbatim>\<open>p.nullable()\<close>: \<^verbatim>\<open>null\<close> is accepted as it is.\<close>

definition nullable :: "('n json option \<Rightarrow> 'a option) \<Rightarrow> 'n json option \<Rightarrow> 'a js option" where
  "nullable p v = (case v of Some JNull \<Rightarrow> Some Null | _ \<Rightarrow> map_option Val (p v))"

text \<open>\<^verbatim>\<open>p.optional()\<close>: an absent member is accepted as \<^verbatim>\<open>undefined\<close>.\<close>

definition optional :: "('n json option \<Rightarrow> 'a option) \<Rightarrow> 'n json option \<Rightarrow> 'a js option" where
  "optional p v = (case v of None \<Rightarrow> Some Undefined | Some _ \<Rightarrow> map_option Val (p v))"

text \<open>\<^verbatim>\<open>p.nullable().optional()\<close>\<close>

definition nullable_optional ::
  "('n json option \<Rightarrow> 'a option) \<Rightarrow> 'n json option \<Rightarrow> 'a js option" where
  "nullable_optional p v = (case v of None \<Rightarrow> Some Undefined | Some _ \<Rightarrow> nullable p v)"

text \<open>\<^verbatim>\<open>z.array(p)\<close>: an array, of any length, whose every element parses.\<close>

definition z_array :: "('n json option \<Rightarrow> 'a option) \<Rightarrow> 'n json option \<Rightarrow> 'a list option" where
  "z_array p v = (case v of Some (JArr xs) \<Rightarrow> those (map (\<lambda>x. p (Some x)) xs) | _ \<Rightarrow> None)"

text \<open>
  \<^verbatim>\<open>z.object({...})\<close>: the value is an object; the members the shape names are parsed,
  the others are dropped.
\<close>

definition z_object ::
  "((string \<Rightarrow> 'n json option) \<Rightarrow> 'a option) \<Rightarrow> 'n json option \<Rightarrow> 'a option" where
  "z_object shape v = (case v of Some (JObj kvs) \<Rightarrow> shape (map_of kvs) | _ \<Rightarrow> None)"

section \<open>The webhook payload\<close>

record clerk_verification =
  status :: string
  strategy :: string

record email_entry =
  email_address :: string
  email_id :: string
  verification :: clerk_verification

record external_account =
  account_email_address :: string
  given_name :: "string js"
  family_name :: "string js"
  picture :: "string js"
  approved_scopes :: string
  google_id :: "string js"

record 'n raw_user =
  data_id :: string
  email_addresses :: "email_entry list"
  external_accounts :: "external_account list js"
  first_name :: "string js"
  last_name :: "string js"
  image_url :: "string js"
  created_at :: 'n
  updated_at :: 'n
  banned :: bool
  external_id :: "string js"

record 'n event =
  data :: "'n raw_user"
  event_type :: string

definition verificationSchema :: "'n json option \<Rightarrow> clerk_verification option" where
  "verificationSchema = z_object (\<lambda>obj. do {
     st \<leftarrow> z_string (obj ''status'');
     sg \<leftarrow> z_string (obj ''strategy'');
     Some \<lparr>status = st, strategy = sg\<rparr> })"

definition emailSchema :: "('n, 'd) externals \<Rightarrow> 'n json option \<Rightarrow> email_entry option" where
  "emailSchema X = z_object (\<lambda>obj. do {
     a \<leftarrow> z_email X (obj ''email_address'');
     i \<leftarrow> z_string (obj ''id'');
     v \<leftarrow> verificationSchema (obj ''verification'');
     Some \<lparr>email_address = a, email_id = i, verification = v\<rparr> })"

text \<open>
  The element schema of \<^verbatim>\<open>external_accounts\<close>. The two validating handlers differ in
  one place: the first has \<^verbatim>\<open>given_name: z.string().nullable().optional()\<close>, the third
  \<^verbatim>\<open>z.string().nullable()\<close> (and the same for \<^verbatim>\<open>family_name\<close>). The parameter
  \<open>name\<close> is that schema.
\<close>

definition accountSchema ::
  "(('n json option \<Rightarrow> string option) \<Rightarrow> 'n json option \<Rightarrow> string js option) \<Rightarrow>
   ('n, 'd) externals \<Rightarrow> 'n json option \<Rightarrow> external_account option" where
  "accountSchema name X = z_object (\<lambda>obj. do {
     a \<leftarrow> z_email X (obj ''email_address'');
     g \<leftarrow> name z_string (obj ''given_name'');
     f \<leftarrow> name z_string (obj ''family_name'');
     p \<leftarrow> optional (z_url X) (obj ''picture'');
     sc \<leftarrow> z_string (obj ''approved_scopes'');
     gi \<leftarrow> optional z_string (obj ''google_id'');
     Some \<lparr>account_email_address = a, given_name = g, family_name = f, picture = p,
           approved_scopes = sc, google_id = gi\<rparr> })"

definition dataSchema ::
  "(('n json option \<Rightarrow> string option) \<Rightarrow> 'n json option \<Rightarrow> string js option) \<Rightarrow>
   ('n, 'd) externals \<Rightarrow> 'n json option \<Rightarrow> 'n raw_user option" where
  "dataSchema name X = z_object (\<lambda>obj. do {
     i \<leftarrow> z_string (obj ''id'');
     es \<leftarrow> z_array (emailSchema X) (obj ''email_addresses'');
     xs \<leftarrow> optional (z_array (accountSchema name X)) (obj ''external_accounts'');
     fn \<leftarrow> nullable z_string (obj ''first_name'');
     ln \<leftarrow> nullable z_string (obj ''last_name'');
     im \<leftarrow> nullable (z_url X) (obj ''image_url'');
     ca \<leftarrow> z_number (obj ''created_at'');
     ua \<leftarrow> z_number (obj ''updated_at'');
     b \<leftarrow> z_boolean (obj ''banned'');
     ei \<leftarrow> nullable z_string (obj ''external_id'');
     Some \<lparr>data_id = i, email_addresses = es, external_accounts = xs, first_name = fn,
           last_name = ln, image_url = im, created_at = ca, updated_at = ua, banned = b,
           external_id = ei\<rparr> })"

definition webhookSchema ::
  "(('n json option \<Rightarrow> string option) \<Rightarrow> 'n json option \<Rightarrow> string js option) \<Rightarrow>
   ('n, 'd) externals \<Rightarrow> 'n json \<Rightarrow> 'n event option" where
  "webhookSchema name X j = z_object (\<lambda>obj. do {
     d \<leftarrow> dataSchema name X (obj ''data'');
     t \<leftarrow> z_string (obj ''type'');
     Some \<lparr>data = d, event_type = t\<rparr> }) (Some j)"

text \<open>The schema of the first handler and the schema of the third.\<close>

definition webhookSchema1 :: "('n, 'd) externals \<Rightarrow> 'n json \<Rightarrow> 'n event option" where
  "webhookSchema1 = webhookSchema nullable_optional"

definition webhookSchema3 :: "('n, 'd) externals \<Rightarrow> 'n json \<Rightarrow> 'n event option" where
  "webhookSchema3 = webhookSchema nullable"

section \<open>The normaliser\<close>

text \<open>
  The object \<^verbatim>\<open>userData\<close> that the first and the third handler build, the same
  text in both. It is the \<^verbatim>\<open>update\<close> and the \<^verbatim>\<open>create\<close> argument of the user
  upsert, so its nullable members have Prisma's input type \<^verbatim>\<open>string | null | undefined\<close>.
  \<^verbatim>\<open>new Date\<close> is the parameter \<open>newDate\<close>.
\<close>

record 'd user_data =
  u_id :: string
  u_emailAddress :: string
  firstName :: "string js"
  lastName :: "string js"
  imageUrl :: "string js"
  emailVerified :: bool
  createdAtClerk :: 'd
  updatedAtClerk :: 'd
  u_banned :: bool
  externalId :: "string js"
  oauthProvider :: "string js"
  oauthId :: "string js"
  oauthScopes :: "string js"

definition userData ::
  "('n, 'd) externals \<Rightarrow> 'n raw_user \<Rightarrow> email_entry \<Rightarrow> external_account js \<Rightarrow> 'd user_data" where
  "userData X d primaryEmail externalAccount =
     \<lparr>u_id = data_id d,
      u_emailAddress = email_address primaryEmail,
      firstName = nullish (nullish (first_name d) (opt_chain externalAccount given_name)) Null,
      lastName = nullish (nullish (last_name d) (opt_chain externalAccount family_name)) Null,
      imageUrl = nullish (nullish (image_url d) (opt_chain externalAccount picture)) Null,
      emailVerified = (status (verification primaryEmail) = ''verified''),
      createdAtClerk = newDate X (created_at d),
      updatedAtClerk = newDate X (updated_at d),
      u_banned = banned d,
      externalId = external_id d,
      oauthProvider = (if truthy externalAccount then Val ''google'' else Null),
      oauthId = nullish (opt_chain externalAccount google_id) Null,
      oauthScopes = nullish (opt_chain externalAccount (\<lambda>a. Val (approved_scopes a))) Null\<rparr>"

section \<open>The persistence interface\<close>

text \<open>
  The arguments of \<^verbatim>\<open>db.user.upsert\<close> and \<^verbatim>\<open>db.userEmail.upsert\<close> as the handlers
  write them, and the rows of the two tables.
\<close>

record 'd user_upsert_args =
  uu_where :: string
  uu_update :: "'d user_data"
  uu_create :: "'d user_data"

record 'd user_row =
  row_id :: string
  row_emailAddress :: string
  row_firstName :: "string option"
  row_lastName :: "string option"
  row_imageUrl :: "string option"
  row_emailVerified :: bool
  row_createdAtClerk :: 'd
  row_updatedAtClerk :: 'd
  row_banned :: bool
  row_externalId :: "string option"
  row_oauthProvider :: "string option"
  row_oauthId :: "string option"
  row_oauthScopes :: "string option"

record userEmail_row =
  ue_id :: string
  userId :: string
  emailAddress :: string
  verificationStatus :: string
  verificationStrategy :: string

record userEmail_update =
  set_emailAddress :: string
  set_verificationStatus :: string
  set_verificationStrategy :: string

record userEmail_upsert_args =
  eu_where :: string
  eu_update :: userEmail_update
  eu_create :: userEmail_row

text \<open>
  What a call can throw. \<^verbatim>\<open>PrismaClientKnownRequestError\<close> carries its code and its
  message; any other \<^verbatim>\<open>Error\<close> its message.
\<close>

datatype thrown =
    PrismaClientKnownRequestError string string
  | Error string
  | NotAnError

text \<open>
  The client \<^verbatim>\<open>db\<close> is imported from a module that is not among the sources. The
  handlers are modelled over any client: a call takes the state of the store and returns
  the row or what it throws, and the state after it.
\<close>

record ('s, 'd) db =
  user_upsert :: "'s \<Rightarrow> 'd user_upsert_args \<Rightarrow> (thrown + 'd user_row) \<times> 's"
  userEmail_upsert :: "'s \<Rightarrow> userEmail_upsert_args \<Rightarrow> (thrown + userEmail_row) \<times> 's"

section \<open>The first handler\<close>

datatype 'n request =
    NoBody
  | Unparsable string
  | Body "'n json"

text \<open>
  A response: its status and its body, a plain text or a JSON object of strings. The
  member \<^verbatim>\<open>details\<close> of a validation failure (zod's issue list) is left out.
\<close>

datatype body = Plain string | Json "(string \<times> string) list"

record response =
  http_status :: nat
  http_body :: body

text \<open>The loop \<^verbatim>\<open>for (const email of data.email_addresses)\<close>: it ends at the first throw.\<close>

definition emailArgs :: "string \<Rightarrow> email_entry \<Rightarrow> userEmail_upsert_args" where
  "emailArgs uid email =
     \<lparr>eu_where = email_id email,
      eu_update = \<lparr>set_emailAddress = email_address email,
                   set_verificationStatus = status (verification email),
                   set_verificationStrategy = strategy (verification email)\<rparr>,
      eu_create = \<lparr>ue_id = email_id email,
                   userId = uid,
                   emailAddress = email_address email,
                   verificationStatus = status (verification email),
                   verificationStrategy = strategy (verification email)\<rparr>\<rparr>"

fun storeEmails :: "('s, 'd) db \<Rightarrow> string \<Rightarrow> 's \<Rightarrow> email_entry list \<Rightarrow> thrown option \<times> 's" where
  "storeEmails db uid s [] = (None, s)"
| "storeEmails db uid s (email # rest) =
     (case userEmail_upsert db s (emailArgs uid email) of
        (Inl e, s') \<Rightarrow> (Some e, s')
      | (Inr _, s') \<Rightarrow> storeEmails db uid s' rest)"

text \<open>
  The body of \<^verbatim>\<open>try\<close>: the response it returns or what it throws, and the state of
  the store then. \<open>POST1_validated\<close> is the part from
  \<^verbatim>\<open>const { data } = validatedData.data\<close> on, which reads nothing but \<^verbatim>\<open>data\<close>.
\<close>

definition POST1_validated ::
  "('n, 'd) externals \<Rightarrow> ('s, 'd) db \<Rightarrow> 's \<Rightarrow> 'n raw_user \<Rightarrow> (thrown + response) \<times> 's" where
  "POST1_validated X db s d =
     (case email_addresses d of
        [] \<Rightarrow> (Inr \<lparr>http_status = 400, http_body = Plain ''No email address found''\<rparr>, s)
      | primaryEmail # _ \<Rightarrow>
          (let externalAccount = opt_first (external_accounts d);
               ud = userData X d primaryEmail externalAccount
           in case user_upsert db s \<lparr>uu_where = data_id d, uu_update = ud, uu_create = ud\<rparr> of
                (Inl e, s1) \<Rightarrow> (Inl e, s1)
              | (Inr updatedUser, s1) \<Rightarrow>
                  (case storeEmails db (data_id d) s1 (email_addresses d) of
                     (Some e, s2) \<Rightarrow> (Inl e, s2)
                   | (None, s2) \<Rightarrow>
                       (Inr \<lparr>http_status = 200,
                             http_body = Json [(''message'', ''Webhook processed successfully''),
                                          (''userId'', row_id updatedUser)]\<rparr>,
                        s2))))"

definition POST1_try ::
  "('n, 'd) externals \<Rightarrow> ('s, 'd) db \<Rightarrow> 's \<Rightarrow> 'n request \<Rightarrow> (thrown + response) \<times> 's" where
  "POST1_try X db s req =
     (case req of
        NoBody \<Rightarrow> (Inr \<lparr>http_status = 400, http_body = Plain ''Missing request body''\<rparr>, s)
      | Unparsable m \<Rightarrow> (Inl (Error m), s)
      | Body rawBody \<Rightarrow>
          (case webhookSchema1 X rawBody of
             None \<Rightarrow>
               (Inr \<lparr>http_status = 400,
                     http_body = Json [(''error'', ''Invalid webhook payload'')]\<rparr>, s)
           | Some validatedData \<Rightarrow> POST1_validated X db s (data validatedData)))"

text \<open>
  The \<^verbatim>\<open>catch\<close> block. \<^verbatim>\<open>prismaErrors[error.code]\<close> reads a member of an object
  literal, so a code that names a member every object inherits from
  \<^verbatim>\<open>Object.prototype\<close> finds that member: it is not nullish, \<^verbatim>\<open>??\<close> keeps it, its
  \<^verbatim>\<open>status\<close> and \<^verbatim>\<open>message\<close> are undefined, and a \<^verbatim>\<open>Response\<close> built with an
  undefined status has status 200. Prisma's codes are \<^verbatim>\<open>P\<close> and four digits.
\<close>

definition prismaErrors :: "(string \<times> nat \<times> string) list" where
  "prismaErrors =
     [(''P2002'', 409, ''Resource already exists''),
      (''P2014'', 400, ''Invalid ID provided''),
      (''P2003'', 400, ''Foreign key constraint failed'')]"

definition objectPrototype :: "string list" where
  "objectPrototype =
     [''constructor'', ''__defineGetter__'', ''__defineSetter__'', ''hasOwnProperty'',
      ''__lookupGetter__'', ''__lookupSetter__'', ''isPrototypeOf'', ''propertyIsEnumerable'',
      ''toString'', ''valueOf'', ''__proto__'', ''toLocaleString'']"

definition POST1_catch :: "thrown \<Rightarrow> response" where
  "POST1_catch error =
     (case error of
        PrismaClientKnownRequestError code message \<Rightarrow>
          (case map_of prismaErrors code of
             Some (st, m) \<Rightarrow>
               \<lparr>http_status = st,
                http_body = Json [(''error'', m), (''code'', code), (''details'', message)]\<rparr>
           | None \<Rightarrow>
               if code \<in> set objectPrototype
               then \<lparr>http_status = 200,
                     http_body = Json [(''code'', code), (''details'', message)]\<rparr>
               else \<lparr>http_status = 500,
                     http_body = Json [(''error'', ''Database error occurred''), (''code'', code),
                                       (''details'', message)]\<rparr>)
      | Error message \<Rightarrow>
          \<lparr>http_status = 500,
           http_body = Json [(''error'', ''Internal server error''), (''message'', message)]\<rparr>
      | NotAnError \<Rightarrow>
          \<lparr>http_status = 500,
           http_body = Json [(''error'', ''Internal server error''),
                             (''message'', ''Unknown error occurred'')]\<rparr>)"

definition POST1 ::
  "('n, 'd) externals \<Rightarrow> ('s, 'd) db \<Rightarrow> 's \<Rightarrow> 'n request \<Rightarrow> response \<times> 's" where
  "POST1 X db s req =
     (case POST1_try X db s req of
        (Inr r, s') \<Rightarrow> (r, s')
      | (Inl error, s') \<Rightarrow> (POST1_catch error, s'))"

section \<open>The third handler\<close>

text \<open>
  It differs from the first in its schema, in the success body (no \<^verbatim>\<open>userId\<close>) and in
  the error body (no \<^verbatim>\<open>details\<close>); the normaliser and the loop are the same text.
\<close>

definition POST3_validated ::
  "('n, 'd) externals \<Rightarrow> ('s, 'd) db \<Rightarrow> 's \<Rightarrow> 'n raw_user \<Rightarrow> (thrown + response) \<times> 's" where
  "POST3_validated X db s d =
     (case email_addresses d of
        [] \<Rightarrow> (Inr \<lparr>http_status = 400, http_body = Plain ''No email address found''\<rparr>, s)
      | primaryEmail # _ \<Rightarrow>
          (let externalAccount = opt_first (external_accounts d);
               ud = userData X d primaryEmail externalAccount
           in case user_upsert db s \<lparr>uu_where = data_id d, uu_update = ud, uu_create = ud\<rparr> of
                (Inl e, s1) \<Rightarrow> (Inl e, s1)
              | (Inr _, s1) \<Rightarrow>
                  (case storeEmails db (data_id d) s1 (email_addresses d) of
                     (Some e, s2) \<Rightarrow> (Inl e, s2)
                   | (None, s2) \<Rightarrow>
                       (Inr \<lparr>http_status = 200,
                             http_body = Json [(''message'', ''Webhook processed successfully'')]\<rparr>,
                        s2))))"

definition POST3_try ::
  "('n, 'd) externals \<Rightarrow> ('s, 'd) db \<Rightarrow> 's \<Rightarrow> 'n request \<Rightarrow> (thrown + response) \<times> 's" where
  "POST3_try X db s req =
     (case req of
        NoBody \<Rightarrow> (Inr \<lparr>http_status = 400, http_body = Plain ''Missing request body''\<rparr>, s)
      | Unparsable m \<Rightarrow> (Inl (Error m), s)
      | Body rawBody \<Rightarrow>
          (case webhookSchema3 X rawBody of
             None \<Rightarrow>
               (Inr \<lparr>http_status = 400,
                     http_body = Json [(''error'', ''Invalid webhook payload'')]\<rparr>, s)
           | Some validatedData \<Rightarrow> POST3_validated X db s (data validatedData)))"

definition POST3_catch :: "thrown \<Rightarrow> response" where
  "POST3_catch error =
     (case error of
        PrismaClientKnownRequestError code message \<Rightarrow>
          (case map_of prismaErrors code of
             Some (st, m) \<Rightarrow>
               \<lparr>http_status = st, http_body = Json [(''error'', m), (''code'', code)]\<rparr>
           | None \<Rightarrow>
               if code \<in> set objectPrototype
               then \<lparr>http_status = 200, http_body = Json [(''code'', code)]\<rparr>
               else \<lparr>http_status = 500,
                     http_body = Json [(''error'', ''Database error occurred''), (''code'', code)]\<rparr>)
      | Error message \<Rightarrow>
          \<lparr>http_status = 500,
           http_body = Json [(''error'', ''Internal server error''), (''message'', message)]\<rparr>
      | NotAnError \<Rightarrow>
          \<lparr>http_status = 500,
           http_body = Json [(''error'', ''Internal server error''),
                             (''message'', ''Unknown error occurred'')]\<rparr>)"

definition POST3 ::
  "('n, 'd) externals \<Rightarrow> ('s, 'd) db \<Rightarrow> 's \<Rightarrow> 'n request \<Rightarrow> response \<times> 's" where
  "POST3 X db s req =
     (case POST3_try X db s req of
        (Inr r, s') \<Rightarrow> (r, s')
      | (Inl error, s') \<Rightarrow> (POST3_catch error, s'))"

section \<open>The store\<close>

text \<open>
  Modelled from the spec: the Prisma client and the database schema behind
  \<^verbatim>\<open>db\<close> are not among the sources. The spec gives the two tables, their primary
  keys (\<^verbatim>\<open>id\<close>), the foreign key \<^verbatim>\<open>userId\<close> and the meaning of an upsert: insert the
  \<^verbatim>\<open>create\<close> object when no row has the key, write the members of the \<^verbatim>\<open>update\<close>
  object into the row when one has. A table is a map from the key to the row. In a
  \<^verbatim>\<open>create\<close> object an undefined member of a nullable column is stored as NULL; in an
  \<^verbatim>\<open>update\<close> object an undefined member leaves the column as it is, and
  \<^verbatim>\<open>null\<close> sets it to NULL. A duplicate key is error P2002, a \<^verbatim>\<open>userId\<close> without
  its user row is error P2003; a failed call leaves the store as it was. Which values
  of a column the database refuses is not modelled: this store takes every row.
\<close>

definition column :: "'a js \<Rightarrow> 'a option" where
  "column v = (case v of Val x \<Rightarrow> Some x | Null \<Rightarrow> None | Undefined \<Rightarrow> None)"

definition assign :: "'a js \<Rightarrow> 'a option \<Rightarrow> 'a option" where
  "assign v old = (case v of Val x \<Rightarrow> Some x | Null \<Rightarrow> None | Undefined \<Rightarrow> old)"

definition create_user :: "'d user_data \<Rightarrow> 'd user_row" where
  "create_user ud =
     \<lparr>row_id = u_id ud,
      row_emailAddress = u_emailAddress ud,
      row_firstName = column (firstName ud),
      row_lastName = column (lastName ud),
      row_imageUrl = column (imageUrl ud),
      row_emailVerified = emailVerified ud,
      row_createdAtClerk = createdAtClerk ud,
      row_updatedAtClerk = updatedAtClerk ud,
      row_banned = u_banned ud,
      row_externalId = column (externalId ud),
      row_oauthProvider = column (oauthProvider ud),
      row_oauthId = column (oauthId ud),
      row_oauthScopes = column (oauthScopes ud)\<rparr>"

definition update_user :: "'d user_data \<Rightarrow> 'd user_row \<Rightarrow> 'd user_row" where
  "update_user ud r =
     \<lparr>row_id = u_id ud,
      row_emailAddress = u_emailAddress ud,
      row_firstName = assign (firstName ud) (row_firstName r),
      row_lastName = assign (lastName ud) (row_lastName r),
      row_imageUrl = assign (imageUrl ud) (row_imageUrl r),
      row_emailVerified = emailVerified ud,
      row_createdAtClerk = createdAtClerk ud,
      row_updatedAtClerk = updatedAtClerk ud,
      row_banned = u_banned ud,
      row_externalId = assign (externalId ud) (row_externalId r),
      row_oauthProvider = assign (oauthProvider ud) (row_oauthProvider r),
      row_oauthId = assign (oauthId ud) (row_oauthId r),
      row_oauthScopes = assign (oauthScopes ud) (row_oauthScopes r)\<rparr>"

definition update_userEmail :: "userEmail_update \<Rightarrow> userEmail_row \<Rightarrow> userEmail_row" where
  "update_userEmail u r =
     r\<lparr>emailAddress := set_emailAddress u,
       verificationStatus := set_verificationStatus u,
       verificationStrategy := set_verificationStrategy u\<rparr>"

record 'd store =
  users :: "string \<Rightarrow> 'd user_row option"
  userEmails :: "string \<Rightarrow> userEmail_row option"

definition P2002 :: thrown where
  "P2002 = PrismaClientKnownRequestError ''P2002'' ''Unique constraint failed''"

definition P2003 :: thrown where
  "P2003 = PrismaClientKnownRequestError ''P2003'' ''Foreign key constraint failed''"

text \<open>
  Modelled from the spec: \<^verbatim>\<open>db.user.upsert\<close>, the upsert by primary key on the user
  table (the client is not among the sources).
\<close>

definition prisma_user_upsert ::
  "'d store \<Rightarrow> 'd user_upsert_args \<Rightarrow> (thrown + 'd user_row) \<times> 'd store" where
  "prisma_user_upsert s a =
     (case users s (uu_where a) of
        None \<Rightarrow>
          (let r = create_user (uu_create a)
           in if users s (row_id r) \<noteq> None then (Inl P2002, s)
              else (Inr r, s\<lparr>users := (users s)(row_id r \<mapsto> r)\<rparr>))
      | Some old \<Rightarrow>
          (let r = update_user (uu_update a) old
           in if row_id r \<noteq> uu_where a \<and> users s (row_id r) \<noteq> None then (Inl P2002, s)
              else (Inr r, s\<lparr>users := ((users s)(uu_where a := None))(row_id r \<mapsto> r)\<rparr>)))"

text \<open>
  Modelled from the spec: \<^verbatim>\<open>db.userEmail.upsert\<close>, the upsert by primary key on the
  email table (the client is not among the sources).
\<close>

definition prisma_userEmail_upsert ::
  "'d store \<Rightarrow> userEmail_upsert_args \<Rightarrow> (thrown + userEmail_row) \<times> 'd store" where
  "prisma_userEmail_upsert s a =
     (case userEmails s (eu_where a) of
        None \<Rightarrow>
          (let r = eu_create a
           in if userEmails s (ue_id r) \<noteq> None then (Inl P2002, s)
              else if users s (userId r) = None then (Inl P2003, s)
              else (Inr r, s\<lparr>userEmails := (userEmails s)(ue_id r \<mapsto> r)\<rparr>))
      | Some old \<Rightarrow>
          (let r = update_userEmail (eu_update a) old
           in (Inr r, s\<lparr>userEmails := (userEmails s)(eu_where a \<mapsto> r)\<rparr>)))"

definition prisma :: "('d store, 'd) db" where
  "prisma = \<lparr>user_upsert = prisma_user_upsert, userEmail_upsert = prisma_userEmail_upsert\<rparr>"

text \<open>
  A client that also records every call it receives, in order, whether the call
  returns or throws.
\<close>

datatype 'd db_call =
    UserUpsert "'d user_upsert_args"
  | UserEmailUpsert userEmail_upsert_args

definition recording :: "('s, 'd) db \<Rightarrow> ('s \<times> 'd db_call list, 'd) db" where
  "recording db =
     \<lparr>user_upsert = (\<lambda>(s, calls) a.
        case user_upsert db s a of (r, s') \<Rightarrow> (r, (s', calls @ [UserUpsert a]))),
      userEmail_upsert = (\<lambda>(s, calls) a.
        case userEmail_upsert db s a of (r, s') \<Rightarrow> (r, (s', calls @ [UserEmailUpsert a])))\<rparr>"

section \<open>The upsert of the second handler\<close>

text \<open>
  The second handler has no schema and writes the user table only, with four columns
  beside the key. Its call of \<^verbatim>\<open>db.user.upsert\<close> is modelled for arguments of the
  types the client accepts: \<^verbatim>\<open>id\<close> and \<^verbatim>\<open>emailAddress\<close> strings (the handler has
  checked that they are truthy), the other three a string, \<^verbatim>\<open>null\<close> or
  \<^verbatim>\<open>undefined\<close>. \<^verbatim>\<open>x ?? undefined\<close> is \<open>nullish x Undefined\<close>.
\<close>

record user2_update =
  u2_set_emailAddress :: string
  u2_set_firstName :: "string js"
  u2_set_lastName :: "string js"
  u2_set_imageUrl :: "string js"

record user2_create =
  u2_new_id :: string
  u2_new_emailAddress :: string
  u2_new_firstName :: "string js"
  u2_new_lastName :: "string js"
  u2_new_imageUrl :: "string js"

record user2_row =
  u2_id :: string
  u2_emailAddress :: string
  u2_firstName :: "string option"
  u2_lastName :: "string option"
  u2_imageUrl :: "string option"

record user2_upsert_args =
  u2_where :: string
  u2_update :: user2_update
  u2_create :: user2_create

definition upsertArgs2 ::
  "string \<Rightarrow> string \<Rightarrow> string js \<Rightarrow> string js \<Rightarrow> string js \<Rightarrow> user2_upsert_args" where
  "upsertArgs2 uid emailAddr firstNm lastNm imageU =
     \<lparr>u2_where = uid,
      u2_update = \<lparr>u2_set_emailAddress = emailAddr,
                   u2_set_firstName = nullish firstNm Undefined,
                   u2_set_lastName = nullish lastNm Undefined,
                   u2_set_imageUrl = nullish imageU Undefined\<rparr>,
      u2_create = \<lparr>u2_new_id = uid,
                   u2_new_emailAddress = emailAddr,
                   u2_new_firstName = nullish firstNm Null,
                   u2_new_lastName = nullish lastNm Null,
                   u2_new_imageUrl = nullish imageU Null\<rparr>\<rparr>"

text \<open>
  Modelled from the spec: \<^verbatim>\<open>db.user.upsert\<close> on the user table of the second handler
  (the client is not among the sources).
\<close>

definition prisma_user2_upsert ::
  "(string \<Rightarrow> user2_row option) \<Rightarrow> user2_upsert_args \<Rightarrow>
   (thrown + user2_row) \<times> (string \<Rightarrow> user2_row option)" where
  "prisma_user2_upsert tbl a =
     (case tbl (u2_where a) of
        None \<Rightarrow>
          (let c = u2_create a;
               r = \<lparr>u2_id = u2_new_id c,
                    u2_emailAddress = u2_new_emailAddress c,
                    u2_firstName = column (u2_new_firstName c),
                    u2_lastName = column (u2_new_lastName c),
                    u2_imageUrl = column (u2_new_imageUrl c)\<rparr>
           in if tbl (u2_id r) \<noteq> None then (Inl P2002, tbl)
              else (Inr r, tbl(u2_id r \<mapsto> r)))
      | Some old \<Rightarrow>
          (let u = u2_update a;
               r = old\<lparr>u2_emailAddress := u2_set_emailAddress u,
                       u2_firstName := assign (u2_set_firstName u) (u2_firstName old),
                       u2_lastName := assign (u2_set_lastName u) (u2_lastName old),
                       u2_imageUrl := assign (u2_set_imageUrl u) (u2_imageUrl old)\<rparr>
           in (Inr r, tbl(u2_where a \<mapsto> r))))"

definition POST2_upsert ::
  "(string \<Rightarrow> user2_row option) \<Rightarrow> string \<Rightarrow> string \<Rightarrow> string js \<Rightarrow> string js \<Rightarrow> string js \<Rightarrow>
   (thrown + user2_row) \<times> (string \<Rightarrow> user2_row option)" where
  "POST2_upsert tbl uid emailAddr firstNm lastNm imageU =
     prisma_user2_upsert tbl (upsertArgs2 uid emailAddr firstNm lastNm imageU)"

section \<open>Notions used to state the properties\<close>

text \<open>The member \<open>k\<close> of a JSON value: \<open>None\<close> when the value has no such member.\<close>

definition member :: "'n json \<Rightarrow> string \<Rightarrow> 'n json option" where
  "member j k = (case j of JObj kvs \<Rightarrow> map_of kvs k | _ \<Rightarrow> None)"

text \<open>
  The member \<open>k\<close> of \<open>obj\<close> is absent, \<^verbatim>\<open>null\<close> or a string, and \<open>v\<close> is what it
  is: a member of any other type has no \<open>v\<close>.
\<close>

definition string_member :: "'n json \<Rightarrow> string \<Rightarrow> string js \<Rightarrow> bool" where
  "string_member obj k v =
     (case member obj k of
        None \<Rightarrow> v = Undefined
      | Some JNull \<Rightarrow> v = Null
      | Some (JStr s) \<Rightarrow> v = Val s
      | Some _ \<Rightarrow> False)"

text \<open>
  The row an upsert leaves under the key: the \<^verbatim>\<open>create\<close> object when there was no
  row, the old row with the members of the \<^verbatim>\<open>update\<close> object written into it when
  there was one.
\<close>

definition writtenUser :: "'d user_data \<Rightarrow> 'd user_row option \<Rightarrow> 'd user_row" where
  "writtenUser ud old = (case old of None \<Rightarrow> create_user ud | Some r \<Rightarrow> update_user ud r)"

definition writtenRow :: "string \<Rightarrow> email_entry \<Rightarrow> userEmail_row option \<Rightarrow> userEmail_row" where
  "writtenRow uid e old =
     (case old of
        None \<Rightarrow> \<lparr>ue_id = email_id e, userId = uid, emailAddress = email_address e,
                  verificationStatus = status (verification e),
                  verificationStrategy = strategy (verification e)\<rparr>
      | Some r \<Rightarrow> r\<lparr>emailAddress := email_address e,
                    verificationStatus := status (verification e),
                    verificationStrategy := strategy (verification e)\<rparr>)"

text \<open>
  The email table after the loop over \<open>es\<close>: a key that no entry has keeps its row; a
  key that some entry has holds what the last such entry wrote.
\<close>

definition emailRows ::
  "string \<Rightarrow> email_entry list \<Rightarrow> (string \<Rightarrow> userEmail_row option) \<Rightarrow> string \<Rightarrow> userEmail_row option" where
  "emailRows uid es m k =
     (case find (\<lambda>e. email_id e = k) (rev es) of
        None \<Rightarrow> m k
      | Some e \<Rightarrow> Some (writtenRow uid e (m k)))"

section \<open>A sample event and a sample store\<close>

text \<open>
  Concrete inputs on which the properties are evaluated. The sample library accepts
  as an email address a string with an \<^verbatim>\<open>@\<close>, as a URL a string that starts with
  \<^verbatim>\<open>http\<close>, and keeps a time as its number of milliseconds.
\<close>

definition sampleExternals :: "(int, int) externals" where
  "sampleExternals =
     \<lparr>isEmail = (\<lambda>s. CHR ''@'' \<in> set s), isUrl = (\<lambda>s. take 4 s = ''http''), newDate = (\<lambda>n. n)\<rparr>"

definition sampleData :: "int json \<Rightarrow> int json" where
  "sampleData emails =
     JObj [(''id'', JStr ''user_1''),
           (''email_addresses'', emails),
           (''external_accounts'', JArr [JObj
              [(''email_address'', JStr ''ada@example.com''),
               (''given_name'', JStr ''Ada''),
               (''family_name'', JNull),
               (''approved_scopes'', JStr ''email profile''),
               (''google_id'', JStr ''g123'')]]),
           (''first_name'', JNull),
           (''last_name'', JStr ''Lovelace''),
           (''image_url'', JNull),
           (''created_at'', JNum 1700000000000),
           (''updated_at'', JNum 1700000000500),
           (''banned'', JBool False),
           (''external_id'', JNull)]"

definition sampleEventWith :: "int json \<Rightarrow> string \<Rightarrow> int json" where
  "sampleEventWith emails t = JObj [(''data'', sampleData emails), (''type'', JStr t)]"

definition sampleEmails :: "int json" where
  "sampleEmails =
     JArr [JObj [(''email_address'', JStr ''ada@example.com''),
                 (''id'', JStr ''idn_1''),
                 (''verification'', JObj [(''status'', JStr ''verified''),
                                          (''strategy'', JStr ''from_oauth_google'')])]]"

definition sampleEvent :: "int json" where
  "sampleEvent = sampleEventWith sampleEmails ''user.created''"

text \<open>A body without \<^verbatim>\<open>data\<close>.\<close>

definition noDataEvent :: "int json" where
  "noDataEvent = JObj [(''type'', JStr ''user.created'')]"

definition sampleEntry :: email_entry where
  "sampleEntry =
     \<lparr>email_address = ''ada@example.com'', email_id = ''idn_1'',
      verification = \<lparr>status = ''verified'', strategy = ''from_oauth_google''\<rparr>\<rparr>"

definition sampleAccount :: external_account where
  "sampleAccount =
     \<lparr>account_email_address = ''ada@example.com'', given_name = Val ''Ada'', family_name = Null,
      picture = Undefined, approved_scopes = ''email profile'', google_id = Val ''g123''\<rparr>"

definition sampleUserWith :: "email_entry list \<Rightarrow> int raw_user" where
  "sampleUserWith es =
     \<lparr>data_id = ''user_1'', email_addresses = es, external_accounts = Val [sampleAccount],
      first_name = Null, last_name = Val ''Lovelace'', image_url = Null,
      created_at = 1700000000000, updated_at = 1700000000500, banned = False,
      external_id = Null\<rparr>"

definition sampleUser :: "int raw_user" where
  "sampleUser = sampleUserWith [sampleEntry]"

definition sampleUserData :: "int user_data" where
  "sampleUserData =
     \<lparr>u_id = ''user_1'', u_emailAddress = ''ada@example.com'', firstName = Val ''Ada'',
      lastName = Val ''Lovelace'', imageUrl = Null, emailVerified = True,
      createdAtClerk = 1700000000000, updatedAtClerk = 1700000000500, u_banned = False,
      externalId = Null, oauthProvider = Val ''google'', oauthId = Val ''g123'',
      oauthScopes = Val ''email profile''\<rparr>"

definition sampleUserRow :: "int user_row" where
  "sampleUserRow =
     \<lparr>row_id = ''user_1'', row_emailAddress = ''ada@example.com'', row_firstName = Some ''Ada'',
      row_lastName = Some ''Lovelace'', row_imageUrl = None, row_emailVerified = True,
      row_createdAtClerk = 1700000000000, row_updatedAtClerk = 1700000000500,
      row_banned = False, row_externalId = None, row_oauthProvider = Some ''google'',
      row_oauthId = Some ''g123'', row_oauthScopes = Some ''email profile''\<rparr>"

text \<open>An empty store, and a store in which both keys of the sample event are taken.\<close>

definition emptyStore :: "int store" where
  "emptyStore = \<lparr>users = Map.empty, userEmails = Map.empty\<rparr>"

definition oldUserRow :: "int user_row" where
  "oldUserRow =
     \<lparr>row_id = ''user_1'', row_emailAddress = ''old@example.com'', row_firstName = Some ''Old'',
      row_lastName = None, row_imageUrl = Some ''http://example.com/old.png'',
      row_emailVerified = False, row_createdAtClerk = 1, row_updatedAtClerk = 2,
      row_banned = True, row_externalId = Some ''ext'', row_oauthProvider = None,
      row_oauthId = None, row_oauthScopes = None\<rparr>"

definition oldEmailRow :: userEmail_row where
  "oldEmailRow =
     \<lparr>ue_id = ''idn_1'', userId = ''user_0'', emailAddress = ''old@example.com'',
      verificationStatus = ''unverified'', verificationStrategy = ''email_code''\<rparr>"

definition usedStore :: "int store" where
  "usedStore = \<lparr>users = [''user_1'' \<mapsto> oldUserRow], userEmails = [''idn_1'' \<mapsto> oldEmailRow]\<rparr>"

text \<open>A client whose email upsert always throws the given error.\<close>

definition emailsFail :: "thrown \<Rightarrow> (int store, int) db" where
  "emailsFail e =
     \<lparr>user_upsert = prisma_user_upsert, userEmail_upsert = (\<lambda>s a. (Inl e, s))\<rparr>"

text \<open>A row of the user table of the second handler.\<close>

definition oldUser2Row :: user2_row where
  "oldUser2Row =
     \<lparr>u2_id = ''user_1'', u2_emailAddress = ''old@example.com'', u2_firstName = Some ''Old'',
      u2_lastName = None, u2_imageUrl = None\<rparr>"

section \<open>The schema\<close>

lemma z_string_Some: "z_string v = Some s \<longleftrightarrow> v = Some (JStr s)"
  by (auto simp: z_string_def split: option.splits json.splits)

lemma member_JObj: "member (JObj kvs) = map_of kvs"
  by (rule ext) (simp add: member_def)

lemma z_object_Some:
  "z_object shape v = Some r \<Longrightarrow> \<exists>j. v = Some j \<and> shape (member j) = Some r"
  by (auto simp: z_object_def member_JObj split: option.splits json.splits)

lemma z_string_member: "z_string (member j k) = Some s \<Longrightarrow> member j k = Some (JStr s)"
  by (simp add: z_string_Some)

lemma z_email_member:
  "z_email X (member j k) = Some s \<Longrightarrow> member j k = Some (JStr s) \<and> isEmail X s"
  by (auto simp: z_email_def z_string_Some split: option.splits if_splits)

lemma nullable_member:
  "nullable z_string (member j k) = Some x \<Longrightarrow> string_member j k x \<and> x \<noteq> Undefined"
  by (auto simp: nullable_def string_member_def z_string_def split: option.splits json.splits)

lemma nullable_url_member:
  "nullable (z_url X) (member j k) = Some x \<Longrightarrow> string_member j k x \<and> x \<noteq> Undefined"
  by (auto simp: nullable_def string_member_def z_url_def z_string_def
      split: option.splits json.splits if_splits)

lemma optional_member:
  "optional z_string (member j k) = Some x \<Longrightarrow> string_member j k x \<and> x \<noteq> Null"
  by (auto simp: optional_def string_member_def z_string_def split: option.splits json.splits)

lemma optional_url_member:
  "optional (z_url X) (member j k) = Some x \<Longrightarrow> string_member j k x \<and> x \<noteq> Null"
  by (auto simp: optional_def string_member_def z_url_def z_string_def
      split: option.splits json.splits if_splits)

lemma nullable_optional_member:
  "nullable_optional z_string (member j k) = Some x \<Longrightarrow> string_member j k x"
  by (auto simp: nullable_optional_def nullable_def string_member_def z_string_def
      split: option.splits json.splits)

lemma those_map_Some:
  "those (map f xs) = Some ys \<Longrightarrow> list_all2 (\<lambda>x y. f x = Some y) xs ys"
  by (induction xs arbitrary: ys) (auto split: option.splits)

lemma z_array_Some:
  "z_array p v = Some ys \<Longrightarrow>
   \<exists>xs. v = Some (JArr xs) \<and> list_all2 (\<lambda>x y. p (Some x) = Some y) xs ys"
  by (auto simp: z_array_def split: option.splits json.splits dest: those_map_Some)

lemma emailSchema_Some:
  "emailSchema X (Some x) = Some e \<Longrightarrow>
     member x ''email_address'' = Some (JStr (email_address e)) \<and> isEmail X (email_address e)"
  unfolding emailSchema_def
  by (auto dest!: z_object_Some z_email_member simp: bind_eq_Some_conv)

lemma accountSchema_Some:
  assumes "accountSchema name X (Some y) = Some a"
    and "\<And>k x. name z_string (member y k) = Some x \<Longrightarrow> string_member y k x"
  shows "string_member y ''given_name'' (given_name a) \<and>
     string_member y ''family_name'' (family_name a) \<and>
     string_member y ''picture'' (picture a) \<and>
     string_member y ''google_id'' (google_id a)"
  using assms unfolding accountSchema_def
  by (auto dest!: z_object_Some simp: bind_eq_Some_conv
      optional_member[THEN conjunct1] optional_url_member[THEN conjunct1])

lemma dataSchema_Some:
  assumes "dataSchema name X v = Some d"
  shows "\<exists>dj. v = Some dj \<and>
     member dj ''id'' = Some (JStr (data_id d)) \<and>
     (\<exists>xs. member dj ''email_addresses'' = Some (JArr xs) \<and>
           list_all2 (\<lambda>x e. emailSchema X (Some x) = Some e) xs (email_addresses d)) \<and>
     string_member dj ''first_name'' (first_name d) \<and> first_name d \<noteq> Undefined \<and>
     string_member dj ''last_name'' (last_name d) \<and> last_name d \<noteq> Undefined \<and>
     string_member dj ''image_url'' (image_url d) \<and> image_url d \<noteq> Undefined \<and>
     string_member dj ''external_id'' (external_id d) \<and> external_id d \<noteq> Undefined \<and>
     (case external_accounts d of
        Undefined \<Rightarrow> member dj ''external_accounts'' = None
      | Null \<Rightarrow> False
      | Val accs \<Rightarrow> \<exists>ys. member dj ''external_accounts'' = Some (JArr ys) \<and>
           list_all2 (\<lambda>y a. accountSchema name X (Some y) = Some a) ys accs)"
proof -
  from assms obtain dj where v: "v = Some dj"
    and i: "z_string (member dj ''id'') = Some (data_id d)"
    and es: "z_array (emailSchema X) (member dj ''email_addresses'') = Some (email_addresses d)"
    and xs: "optional (z_array (accountSchema name X)) (member dj ''external_accounts'') =
               Some (external_accounts d)"
    and fn: "nullable z_string (member dj ''first_name'') = Some (first_name d)"
    and ln: "nullable z_string (member dj ''last_name'') = Some (last_name d)"
    and im: "nullable (z_url X) (member dj ''image_url'') = Some (image_url d)"
    and ei: "nullable z_string (member dj ''external_id'') = Some (external_id d)"
    unfolding dataSchema_def by (auto dest!: z_object_Some simp: bind_eq_Some_conv)
  have acc: "(case external_accounts d of
        Undefined \<Rightarrow> member dj ''external_accounts'' = None
      | Null \<Rightarrow> False
      | Val accs \<Rightarrow> \<exists>ys. member dj ''external_accounts'' = Some (JArr ys) \<and>
           list_all2 (\<lambda>y a. accountSchema name X (Some y) = Some a) ys accs)"
    using xs by (auto simp: optional_def split: option.splits js.splits dest: z_array_Some)
  show ?thesis
    using v z_string_member[OF i] z_array_Some[OF es] nullable_member[OF fn]
      nullable_member[OF ln] nullable_url_member[OF im] nullable_member[OF ei] acc
    by simp
qed

lemma webhookSchema_Some:
  assumes "webhookSchema name X j = Some ev"
  shows "\<exists>dj. member j ''data'' = Some dj \<and> dataSchema name X (Some dj) = Some (data ev)"
proof -
  from assms obtain d where d: "dataSchema name X (member j ''data'') = Some d" and "data ev = d"
    unfolding webhookSchema_def by (auto dest!: z_object_Some simp: bind_eq_Some_conv)
  moreover from dataSchema_Some[OF d] obtain dj where "member j ''data'' = Some dj" by blast
  ultimately show ?thesis by auto
qed

lemma webhookSchema_external_id:
  "webhookSchema name X j = Some ev \<Longrightarrow> external_id (data ev) \<noteq> Undefined"
  by (blast dest: webhookSchema_Some dataSchema_Some)

lemma webhookSchema_no_emails:
  assumes "webhookSchema name X j = Some ev"
    and "Option.bind (member j ''data'') (\<lambda>dj. member dj ''email_addresses'') = None \<or>
         Option.bind (member j ''data'') (\<lambda>dj. member dj ''email_addresses'') = Some JNull \<or>
         Option.bind (member j ''data'') (\<lambda>dj. member dj ''email_addresses'') = Some (JArr [])"
  shows "email_addresses (data ev) = []"
proof -
  from webhookSchema_Some[OF assms(1)] obtain dj where dj: "member j ''data'' = Some dj"
    and d: "dataSchema name X (Some dj) = Some (data ev)" by blast
  from dataSchema_Some[OF d] obtain xs where xs: "member dj ''email_addresses'' = Some (JArr xs)"
    and l: "list_all2 (\<lambda>x e. emailSchema X (Some x) = Some e) xs (email_addresses (data ev))"
    by auto
  from assms(2) dj xs have "xs = []" by auto
  with l show ?thesis by simp
qed

lemma sample_parse:
  "webhookSchema1 sampleExternals (sampleEventWith sampleEmails t) =
     Some \<lparr>data = sampleUser, event_type = t\<rparr>"
  by (simp add: webhookSchema1_def webhookSchema_def dataSchema_def accountSchema_def
      emailSchema_def verificationSchema_def z_object_def z_array_def z_string_def z_email_def
      z_url_def z_number_def z_boolean_def nullable_def optional_def nullable_optional_def
      sampleExternals_def sampleEventWith_def sampleData_def sampleEmails_def sampleUser_def sampleUserWith_def
      sampleEntry_def sampleAccount_def)

lemma sample_parse_no_emails:
  "webhookSchema1 sampleExternals (sampleEventWith (JArr []) t) =
     Some \<lparr>data = sampleUserWith [], event_type = t\<rparr>"
  by (simp add: webhookSchema1_def webhookSchema_def dataSchema_def accountSchema_def
      emailSchema_def verificationSchema_def z_object_def z_array_def z_string_def z_email_def
      z_url_def z_number_def z_boolean_def nullable_def optional_def nullable_optional_def
      sampleExternals_def sampleEventWith_def sampleData_def sampleUserWith_def sampleAccount_def)

lemma sample_userData:
  "userData sampleExternals sampleUser sampleEntry (opt_first (external_accounts sampleUser)) =
     sampleUserData"
  by (simp add: userData_def sampleUser_def sampleUserWith_def sampleEntry_def sampleAccount_def
      sampleUserData_def sampleExternals_def nullish_def opt_chain_def opt_first_def truthy_def)

text \<open>
  C4, as amended. For every JSON value that the schema of the first or of the third
  handler accepts, the parsed event is the value read with its types: \<^verbatim>\<open>data.id\<close> is
  the string member \<^verbatim>\<open>id\<close>, \<^verbatim>\<open>data.email_addresses\<close> is the array member of that
  name (of any length, also empty), entry by entry, and every entry's
  \<^verbatim>\<open>email_address\<close> is a string that passes the email check; each of
  \<^verbatim>\<open>first_name\<close>, \<^verbatim>\<open>last_name\<close>, \<^verbatim>\<open>image_url\<close>, \<^verbatim>\<open>external_id\<close> and, in every
  external account, \<^verbatim>\<open>given_name\<close>, \<^verbatim>\<open>family_name\<close>, \<^verbatim>\<open>picture\<close>, \<^verbatim>\<open>google_id\<close>
  is absent, \<^verbatim>\<open>null\<close> or a string in the value and is that in the result; and
  \<^verbatim>\<open>external_accounts\<close> is absent or an array.
\<close>

theorem webhookSchema_result_typed:
  assumes "webhookSchema1 X j = Some ev \<or> webhookSchema3 X j = Some ev"
  shows "\<exists>dj. member j ''data'' = Some dj \<and>
     member dj ''id'' = Some (JStr (data_id (data ev))) \<and>
     (\<exists>xs. member dj ''email_addresses'' = Some (JArr xs) \<and>
        list_all2 (\<lambda>x e. member x ''email_address'' = Some (JStr (email_address e)) \<and>
                         isEmail X (email_address e))
          xs (email_addresses (data ev))) \<and>
     string_member dj ''first_name'' (first_name (data ev)) \<and>
     string_member dj ''last_name'' (last_name (data ev)) \<and>
     string_member dj ''image_url'' (image_url (data ev)) \<and>
     string_member dj ''external_id'' (external_id (data ev)) \<and>
     (case external_accounts (data ev) of
        Undefined \<Rightarrow> member dj ''external_accounts'' = None
      | Null \<Rightarrow> False
      | Val accs \<Rightarrow> \<exists>ys. member dj ''external_accounts'' = Some (JArr ys) \<and>
          list_all2 (\<lambda>y a. string_member y ''given_name'' (given_name a) \<and>
                           string_member y ''family_name'' (family_name a) \<and>
                           string_member y ''picture'' (picture a) \<and>
                           string_member y ''google_id'' (google_id a))
            ys accs)"
proof -
  from assms obtain nm where p: "webhookSchema nm X j = Some ev"
    and nm: "\<And>y k x. nm z_string (member y k) = Some x \<Longrightarrow> string_member y k x"
  proof
    assume "webhookSchema1 X j = Some ev"
    then show ?thesis
      by (intro that[of nullable_optional]) (simp_all add: webhookSchema1_def nullable_optional_member)
  next
    assume "webhookSchema3 X j = Some ev"
    then show ?thesis
      by (intro that[of nullable]) (simp_all add: webhookSchema3_def nullable_member)
  qed
  from webhookSchema_Some[OF p] obtain dj where dj: "member j ''data'' = Some dj"
    and d: "dataSchema nm X (Some dj) = Some (data ev)" by blast
  note D = dataSchema_Some[OF d]
  from D obtain xs where xs: "member dj ''email_addresses'' = Some (JArr xs)"
    and l: "list_all2 (\<lambda>x e. emailSchema X (Some x) = Some e) xs (email_addresses (data ev))"
    by auto
  have l': "list_all2 (\<lambda>x e. member x ''email_address'' = Some (JStr (email_address e)) \<and>
                         isEmail X (email_address e)) xs (email_addresses (data ev))"
    by (rule list_all2_mono[OF l]) (rule emailSchema_Some)
  have acc: "(case external_accounts (data ev) of
        Undefined \<Rightarrow> member dj ''external_accounts'' = None
      | Null \<Rightarrow> False
      | Val accs \<Rightarrow> \<exists>ys. member dj ''external_accounts'' = Some (JArr ys) \<and>
          list_all2 (\<lambda>y a. string_member y ''given_name'' (given_name a) \<and>
                           string_member y ''family_name'' (family_name a) \<and>
                           string_member y ''picture'' (picture a) \<and>
                           string_member y ''google_id'' (google_id a))
            ys accs)"
  proof (cases "external_accounts (data ev)")
    case (Val accs)
    with D obtain ys where ys: "member dj ''external_accounts'' = Some (JArr ys)"
      and a: "list_all2 (\<lambda>y a. accountSchema nm X (Some y) = Some a) ys accs" by auto
    have "list_all2 (\<lambda>y a. string_member y ''given_name'' (given_name a) \<and>
                           string_member y ''family_name'' (family_name a) \<and>
                           string_member y ''picture'' (picture a) \<and>
                           string_member y ''google_id'' (google_id a)) ys accs"
      by (rule list_all2_mono[OF a]) (rule accountSchema_Some, assumption, rule nm)
    with ys Val show ?thesis by simp
  qed (use D in auto)
  from dj D xs l' acc show ?thesis by simp
qed

theorem webhookSchema_result_typed_witness:
  "webhookSchema1 sampleExternals sampleEvent = Some \<lparr>data = sampleUser, event_type = ''user.created''\<rparr> \<and>
   (\<exists>dj. member sampleEvent ''data'' = Some dj \<and>
      member dj ''id'' = Some (JStr ''user_1'') \<and>
      string_member dj ''first_name'' Null \<and>
      string_member dj ''last_name'' (Val ''Lovelace''))"
proof -
  have h: "webhookSchema1 sampleExternals sampleEvent =
      Some \<lparr>data = sampleUser, event_type = ''user.created''\<rparr>"
    by (simp add: sampleEvent_def sample_parse)
  from webhookSchema_result_typed[OF disjI1, OF h] h show ?thesis
    by (auto simp: sampleUser_def sampleUserWith_def)
qed

text \<open>
  C4 as stated fails: the schema accepts an event whose \<^verbatim>\<open>email_addresses\<close> is the
  empty array.
\<close>

theorem webhookSchema_accepts_no_emails:
  "webhookSchema1 sampleExternals (sampleEventWith (JArr []) ''user.created'') =
     Some \<lparr>data = sampleUserWith [], event_type = ''user.created''\<rparr> \<and>
   email_addresses (sampleUserWith []) = []"
  by (simp add: sample_parse_no_emails) (simp add: sampleUserWith_def)

section \<open>The normaliser\<close>

text \<open>
  C2. The normaliser resolves \<^verbatim>\<open>firstName\<close> to \<^verbatim>\<open>first_name\<close> when that is a
  string, else to \<^verbatim>\<open>external_accounts[0].given_name\<close> when there is such an account
  and its \<^verbatim>\<open>given_name\<close> is a string, else to \<^verbatim>\<open>null\<close>; \<^verbatim>\<open>lastName\<close> and
  \<^verbatim>\<open>imageUrl\<close> likewise from \<^verbatim>\<open>last_name\<close>/\<^verbatim>\<open>family_name\<close> and
  \<^verbatim>\<open>image_url\<close>/\<^verbatim>\<open>picture\<close>. Any string \<^verbatim>\<open>first_name\<close>, the empty one too, is
  kept: the account's value is not used.
\<close>

theorem userData_name_fallback:
  "firstName (userData X d p (opt_first (external_accounts d))) =
     (case first_name d of
        Val v \<Rightarrow> Val v
      | _ \<Rightarrow> (case external_accounts d of
                Val (a # _) \<Rightarrow> (case given_name a of Val g \<Rightarrow> Val g | _ \<Rightarrow> Null)
              | _ \<Rightarrow> Null)) \<and>
   lastName (userData X d p (opt_first (external_accounts d))) =
     (case last_name d of
        Val v \<Rightarrow> Val v
      | _ \<Rightarrow> (case external_accounts d of
                Val (a # _) \<Rightarrow> (case family_name a of Val g \<Rightarrow> Val g | _ \<Rightarrow> Null)
              | _ \<Rightarrow> Null)) \<and>
   imageUrl (userData X d p (opt_first (external_accounts d))) =
     (case image_url d of
        Val v \<Rightarrow> Val v
      | _ \<Rightarrow> (case external_accounts d of
                Val (a # _) \<Rightarrow> (case picture a of Val g \<Rightarrow> Val g | _ \<Rightarrow> Null)
              | _ \<Rightarrow> Null)) \<and>
   (\<forall>v. first_name d = Val v \<longrightarrow>
      firstName (userData X d p (opt_first (external_accounts d))) = Val v)"
  by (simp add: userData_def nullish_def opt_chain_def opt_first_def split: js.splits list.splits)

theorem userData_name_fallback_witness:
  "firstName (userData sampleExternals sampleUser sampleEntry
     (opt_first (external_accounts sampleUser))) = Val ''Ada'' \<and>
   first_name (sampleUser\<lparr>first_name := Val ''''\<rparr>) = Val '''' \<and>
   firstName (userData sampleExternals (sampleUser\<lparr>first_name := Val ''''\<rparr>) sampleEntry
     (opt_first (external_accounts (sampleUser\<lparr>first_name := Val ''''\<rparr>)))) = Val ''''"
  using userData_name_fallback[where X = sampleExternals and d = sampleUser and p = sampleEntry]
    userData_name_fallback[where X = sampleExternals and d = "sampleUser\<lparr>first_name := Val ''''\<rparr>"
      and p = sampleEntry]
  by (simp add: sampleUser_def sampleUserWith_def sampleAccount_def)

text \<open>
  C6. When \<^verbatim>\<open>external_accounts\<close> is absent or has no entry, the normaliser gives
  \<^verbatim>\<open>oauthProvider\<close>, \<^verbatim>\<open>oauthId\<close> and \<^verbatim>\<open>oauthScopes\<close> \<^verbatim>\<open>null\<close>. When it has an entry,
  however many, \<^verbatim>\<open>oauthProvider\<close> is \<^verbatim>\<open>"google"\<close>, \<^verbatim>\<open>oauthId\<close> is the
  \<^verbatim>\<open>google_id\<close> of the first entry (\<^verbatim>\<open>null\<close> when that is absent) and
  \<^verbatim>\<open>oauthScopes\<close> is its \<^verbatim>\<open>approved_scopes\<close>.
\<close>

theorem userData_oauth:
  "(let ud = userData X d p (opt_first (external_accounts d)) in
    (external_accounts d = Undefined \<or> external_accounts d = Val [] \<longrightarrow>
       oauthProvider ud = Null \<and> oauthId ud = Null \<and> oauthScopes ud = Null) \<and>
    (\<forall>a rest. external_accounts d = Val (a # rest) \<longrightarrow>
       oauthProvider ud = Val ''google'' \<and>
       oauthId ud = (case google_id a of Val g \<Rightarrow> Val g | _ \<Rightarrow> Null) \<and>
       oauthScopes ud = Val (approved_scopes a)))"
  by (auto simp: userData_def nullish_def opt_chain_def opt_first_def truthy_def Let_def
      split: js.splits list.splits)

theorem userData_oauth_witness:
  "external_accounts sampleUser = Val [sampleAccount] \<and>
   oauthProvider (userData sampleExternals sampleUser sampleEntry
     (opt_first (external_accounts sampleUser))) = Val ''google'' \<and>
   oauthId (userData sampleExternals sampleUser sampleEntry
     (opt_first (external_accounts sampleUser))) = Val ''g123'' \<and>
   external_accounts (sampleUser\<lparr>external_accounts := Undefined\<rparr>) = Undefined \<and>
   oauthProvider (userData sampleExternals (sampleUser\<lparr>external_accounts := Undefined\<rparr>) sampleEntry
     (opt_first (external_accounts (sampleUser\<lparr>external_accounts := Undefined\<rparr>)))) = Null \<and>
   oauthId (userData sampleExternals (sampleUser\<lparr>external_accounts := Undefined\<rparr>) sampleEntry
     (opt_first (external_accounts (sampleUser\<lparr>external_accounts := Undefined\<rparr>)))) = Null"
  using userData_oauth[where X = sampleExternals and d = sampleUser and p = sampleEntry]
    userData_oauth[where X = sampleExternals
      and d = "sampleUser\<lparr>external_accounts := Undefined\<rparr>" and p = sampleEntry]
  by (simp add: sampleUser_def sampleUserWith_def sampleAccount_def Let_def)

section \<open>The checks before the first write\<close>

lemma storeEmails_append_throw:
  "storeEmails db uid s pre = (None, s1) \<Longrightarrow>
   userEmail_upsert db s1 (emailArgs uid email) = (Inl e, s2) \<Longrightarrow>
   storeEmails db uid s (pre @ email # rest) = (Some e, s2)"
  by (induction pre arbitrary: s) (auto split: prod.splits sum.splits)

text \<open>
  C3. When the body has no \<^verbatim>\<open>data.email_addresses\<close>, or has \<^verbatim>\<open>null\<close> or the empty
  array there, the first handler (and the third) answers 400 and calls the client not
  once: a client that records its calls has recorded none, and the store is as it was.
\<close>

theorem no_email_addresses_no_write:
  assumes "Option.bind (member j ''data'') (\<lambda>dj. member dj ''email_addresses'') = None \<or>
           Option.bind (member j ''data'') (\<lambda>dj. member dj ''email_addresses'') = Some JNull \<or>
           Option.bind (member j ''data'') (\<lambda>dj. member dj ''email_addresses'') = Some (JArr [])"
  shows "(\<exists>r. POST1 X (recording db) (s, []) (Body j) = (r, (s, [])) \<and> http_status r = 400) \<and>
         (\<exists>r. POST3 X (recording db) (s, []) (Body j) = (r, (s, [])) \<and> http_status r = 400)"
proof
  show "\<exists>r. POST1 X (recording db) (s, []) (Body j) = (r, (s, [])) \<and> http_status r = 400"
  proof (cases "webhookSchema1 X j")
    case None
    then show ?thesis by (simp add: POST1_def POST1_try_def)
  next
    case (Some ev)
    then have "email_addresses (data ev) = []"
      using assms unfolding webhookSchema1_def by (rule webhookSchema_no_emails)
    with Some show ?thesis by (simp add: POST1_def POST1_try_def POST1_validated_def)
  qed
  show "\<exists>r. POST3 X (recording db) (s, []) (Body j) = (r, (s, [])) \<and> http_status r = 400"
  proof (cases "webhookSchema3 X j")
    case None
    then show ?thesis by (simp add: POST3_def POST3_try_def)
  next
    case (Some ev)
    then have "email_addresses (data ev) = []"
      using assms unfolding webhookSchema3_def by (rule webhookSchema_no_emails)
    with Some show ?thesis by (simp add: POST3_def POST3_try_def POST3_validated_def)
  qed
qed

theorem no_email_addresses_no_write_witness:
  "Option.bind (member (sampleEventWith (JArr []) ''user.created'') ''data'')
     (\<lambda>dj. member dj ''email_addresses'') = Some (JArr []) \<and>
   POST1 sampleExternals (recording prisma) (usedStore, []) (Body (sampleEventWith (JArr []) ''user.created'')) =
     (\<lparr>http_status = 400, http_body = Plain ''No email address found''\<rparr>, (usedStore, [])) \<and>
   Option.bind (member noDataEvent ''data'')
     (\<lambda>dj. member dj ''email_addresses'') = None \<and>
   POST1 sampleExternals (recording prisma) (usedStore, []) (Body noDataEvent) =
     (\<lparr>http_status = 400, http_body = Json [(''error'', ''Invalid webhook payload'')]\<rparr>, (usedStore, []))"
proof -
  have a: "Option.bind (member (sampleEventWith (JArr []) ''user.created'') ''data'')
     (\<lambda>dj. member dj ''email_addresses'') = Some (JArr [])"
    by (simp add: sampleEventWith_def sampleData_def member_def)
  have b: "Option.bind (member noDataEvent ''data'')
     (\<lambda>dj. member dj ''email_addresses'') = None"
    by (simp add: member_def noDataEvent_def)
  have c: "webhookSchema1 sampleExternals noDataEvent = None"
    by (simp add: webhookSchema1_def webhookSchema_def z_object_def dataSchema_def noDataEvent_def)
  from no_email_addresses_no_write[OF disjI2, OF disjI2, OF a, of sampleExternals prisma usedStore]
    no_email_addresses_no_write[OF disjI1, OF b, of sampleExternals prisma usedStore] a b
  show ?thesis
    by (auto simp: POST1_def POST1_try_def POST1_validated_def sample_parse_no_emails c
        sampleUserWith_def)
qed

section \<open>The event type\<close>

text \<open>
  C10. Two bodies that are objects with the same members but for the string under
  \<^verbatim>\<open>type\<close> get the same response, the same calls of the client in the same order and
  the same store afterwards, whatever the client: the handler reads \<^verbatim>\<open>type\<close> in the
  schema only. The client is any client, so also one that records its calls.
\<close>

theorem event_type_ignored:
  assumes "\<forall>k. k \<noteq> ''type'' \<longrightarrow> map_of kvs1 k = map_of kvs2 k"
    and "map_of kvs1 ''type'' = Some (JStr t1)"
    and "map_of kvs2 ''type'' = Some (JStr t2)"
  shows "POST1 X db s (Body (JObj kvs1)) = POST1 X db s (Body (JObj kvs2)) \<and>
         POST3 X db s (Body (JObj kvs1)) = POST3 X db s (Body (JObj kvs2))"
proof -
  have "map_option data (webhookSchema name X (JObj kvs1)) =
        map_option data (webhookSchema name X (JObj kvs2))" for name
    using assms
    by (simp add: webhookSchema_def z_object_def z_string_def split: Option.bind_splits)
  from this[of nullable_optional] this[of nullable] show ?thesis
    by (auto simp: POST1_def POST1_try_def POST3_def POST3_try_def webhookSchema1_def
        webhookSchema3_def split: option.splits)
qed

section \<open>The handler on the store\<close>

lemma assign_column: "assign v (column v) = column v"
  by (simp add: assign_def column_def split: js.splits)

lemma assign_assign: "assign v (assign v old) = assign v old"
  by (simp add: assign_def split: js.splits)

lemma assign_defined: "v \<noteq> Undefined \<Longrightarrow> assign v old = column v"
  by (simp add: assign_def column_def split: js.splits)

lemma nullish_Null_defined: "nullish v Null \<noteq> Undefined"
  by (simp add: nullish_def split: js.splits)

lemma writtenUser_twice: "writtenUser ud (Some (writtenUser ud old)) = writtenUser ud old"
  by (simp add: writtenUser_def update_user_def create_user_def assign_column assign_assign
      split: option.splits)

lemma row_id_writtenUser: "row_id (writtenUser ud old) = u_id ud"
  by (simp add: writtenUser_def update_user_def create_user_def split: option.splits)

lemma prisma_user_upsert_ok:
  "u_id ud = uid \<Longrightarrow>
   prisma_user_upsert s \<lparr>uu_where = uid, uu_update = ud, uu_create = ud\<rparr> =
     (Inr (writtenUser ud (users s uid)),
      s\<lparr>users := (users s)(uid \<mapsto> writtenUser ud (users s uid))\<rparr>)"
  by (auto simp: prisma_user_upsert_def writtenUser_def Let_def update_user_def create_user_def
      split: option.splits)

lemma find_snoc:
  "find P (xs @ [x]) =
     (case find P xs of Some y \<Rightarrow> Some y | None \<Rightarrow> if P x then Some x else None)"
  by (induction xs) auto

lemma find_key: "find (\<lambda>e. f e = k) xs = Some e \<Longrightarrow> f e = k"
  by (induction xs) (auto split: if_splits)

lemma writtenRow_twice:
  "email_id e' = email_id e \<Longrightarrow>
   writtenRow uid e' (Some (writtenRow uid e old)) = writtenRow uid e' old"
  by (simp add: writtenRow_def split: option.splits)

lemma emailRows_Nil: "emailRows uid [] m = m"
  by (rule ext) (simp add: emailRows_def)

lemma emailRows_Cons:
  "emailRows uid (e # es) m =
     emailRows uid es (m(email_id e \<mapsto> writtenRow uid e (m (email_id e))))"
  by (rule ext)
    (auto simp: emailRows_def find_snoc writtenRow_twice split: option.splits dest: find_key)

lemma emailRows_idem: "emailRows uid es (emailRows uid es m) = emailRows uid es m"
  by (rule ext) (auto simp: emailRows_def writtenRow_twice split: option.splits dest: find_key)

lemma prisma_userEmail_upsert_ok:
  "users s uid \<noteq> None \<Longrightarrow>
   prisma_userEmail_upsert s (emailArgs uid e) =
     (Inr (writtenRow uid e (userEmails s (email_id e))),
      s\<lparr>userEmails := (userEmails s)(email_id e \<mapsto> writtenRow uid e (userEmails s (email_id e)))\<rparr>)"
  by (auto simp: prisma_userEmail_upsert_def emailArgs_def writtenRow_def update_userEmail_def
      Let_def split: option.splits)

lemma storeEmails_prisma:
  "users s uid \<noteq> None \<Longrightarrow>
   storeEmails prisma uid s es = (None, s\<lparr>userEmails := emailRows uid es (userEmails s)\<rparr>)"
proof (induction es arbitrary: s)
  case Nil
  then show ?case by (simp add: emailRows_Nil)
next
  case (Cons e es)
  let ?s1 = "s\<lparr>userEmails :=
    (userEmails s)(email_id e \<mapsto> writtenRow uid e (userEmails s (email_id e)))\<rparr>"
  have "users ?s1 uid \<noteq> None" using Cons.prems by simp
  then have IH: "storeEmails prisma uid ?s1 es =
      (None, ?s1\<lparr>userEmails := emailRows uid es (userEmails ?s1)\<rparr>)"
    by (rule Cons.IH)
  have "storeEmails prisma uid s (e # es) = storeEmails prisma uid ?s1 es"
    using Cons.prems by (simp add: prisma_def prisma_userEmail_upsert_ok)
  also note IH
  finally show ?case by (simp add: emailRows_Cons)
qed

text \<open>
  What the part of the handlers after validation does on the store, for an event with
  at least one email address: it never throws, and it leaves the user row and the
  email rows that the upserts write. The two handlers differ in the response body.
\<close>

lemma validated_prisma:
  assumes "email_addresses d = p # ps"
  shows "POST1_validated X prisma s d =
     (Inr \<lparr>http_status = 200,
           http_body = Json [(''message'', ''Webhook processed successfully''),
                             (''userId'', data_id d)]\<rparr>,
      s\<lparr>users := (users s)(data_id d \<mapsto>
             writtenUser (userData X d p (opt_first (external_accounts d))) (users s (data_id d))),
        userEmails := emailRows (data_id d) (email_addresses d) (userEmails s)\<rparr>)"
    and "POST3_validated X prisma s d =
     (Inr \<lparr>http_status = 200,
           http_body = Json [(''message'', ''Webhook processed successfully'')]\<rparr>,
      s\<lparr>users := (users s)(data_id d \<mapsto>
             writtenUser (userData X d p (opt_first (external_accounts d))) (users s (data_id d))),
        userEmails := emailRows (data_id d) (email_addresses d) (userEmails s)\<rparr>)"
proof -
  let ?ud = "userData X d p (opt_first (external_accounts d))"
  let ?s1 = "s\<lparr>users := (users s)(data_id d \<mapsto> writtenUser ?ud (users s (data_id d)))\<rparr>"
  have uid: "u_id ?ud = data_id d" by (simp add: userData_def)
  have u: "user_upsert prisma s \<lparr>uu_where = data_id d, uu_update = ?ud, uu_create = ?ud\<rparr> =
      (Inr (writtenUser ?ud (users s (data_id d))), ?s1)"
    by (simp add: prisma_def prisma_user_upsert_ok[OF uid])
  have "users ?s1 (data_id d) \<noteq> None" by simp
  then have e: "storeEmails prisma (data_id d) ?s1 (email_addresses d) =
      (None, ?s1\<lparr>userEmails := emailRows (data_id d) (email_addresses d) (userEmails ?s1)\<rparr>)"
    by (rule storeEmails_prisma)
  have v1: "POST1_validated X prisma s d =
      (case user_upsert prisma s \<lparr>uu_where = data_id d, uu_update = ?ud, uu_create = ?ud\<rparr> of
         (Inl e, s1) \<Rightarrow> (Inl e, s1)
       | (Inr updatedUser, s1) \<Rightarrow>
           (case storeEmails prisma (data_id d) s1 (email_addresses d) of
              (Some e, s2) \<Rightarrow> (Inl e, s2)
            | (None, s2) \<Rightarrow>
                (Inr \<lparr>http_status = 200,
                      http_body = Json [(''message'', ''Webhook processed successfully''),
                                        (''userId'', row_id updatedUser)]\<rparr>, s2)))"
    unfolding POST1_validated_def by (simp add: assms Let_def del: storeEmails.simps)
  have v3: "POST3_validated X prisma s d =
      (case user_upsert prisma s \<lparr>uu_where = data_id d, uu_update = ?ud, uu_create = ?ud\<rparr> of
         (Inl e, s1) \<Rightarrow> (Inl e, s1)
       | (Inr updatedUser, s1) \<Rightarrow>
           (case storeEmails prisma (data_id d) s1 (email_addresses d) of
              (Some e, s2) \<Rightarrow> (Inl e, s2)
            | (None, s2) \<Rightarrow>
                (Inr \<lparr>http_status = 200,
                      http_body = Json [(''message'', ''Webhook processed successfully'')]\<rparr>, s2)))"
    unfolding POST3_validated_def by (simp add: assms Let_def del: storeEmails.simps)
  show "POST1_validated X prisma s d =
     (Inr \<lparr>http_status = 200,
           http_body = Json [(''message'', ''Webhook processed successfully''),
                             (''userId'', data_id d)]\<rparr>,
      s\<lparr>users := (users s)(data_id d \<mapsto> writtenUser ?ud (users s (data_id d))),
        userEmails := emailRows (data_id d) (email_addresses d) (userEmails s)\<rparr>)"
    unfolding v1 u by (simp add: e row_id_writtenUser uid del: storeEmails.simps)
  show "POST3_validated X prisma s d =
     (Inr \<lparr>http_status = 200,
           http_body = Json [(''message'', ''Webhook processed successfully'')]\<rparr>,
      s\<lparr>users := (users s)(data_id d \<mapsto> writtenUser ?ud (users s (data_id d))),
        userEmails := emailRows (data_id d) (email_addresses d) (userEmails s)\<rparr>)"
    unfolding v3 u by (simp add: e del: storeEmails.simps)
qed

lemma validated_prisma_twice:
  "POST1_validated X prisma (snd (POST1_validated X prisma s d)) d = POST1_validated X prisma s d"
  "POST3_validated X prisma (snd (POST3_validated X prisma s d)) d = POST3_validated X prisma s d"
proof -
  show "POST1_validated X prisma (snd (POST1_validated X prisma s d)) d = POST1_validated X prisma s d"
  proof (cases "email_addresses d")
    case Nil
    then show ?thesis by (simp add: POST1_validated_def)
  next
    case (Cons p ps)
    show ?thesis
      unfolding validated_prisma(1)[OF Cons]
      by (simp add: writtenUser_twice emailRows_idem)
  qed
  show "POST3_validated X prisma (snd (POST3_validated X prisma s d)) d = POST3_validated X prisma s d"
  proof (cases "email_addresses d")
    case Nil
    then show ?thesis by (simp add: POST3_validated_def)
  next
    case (Cons p ps)
    show ?thesis
      unfolding validated_prisma(2)[OF Cons]
      by (simp add: writtenUser_twice emailRows_idem)
  qed
qed

lemma sample_POST1:
  "POST1 sampleExternals prisma s (Body (sampleEventWith sampleEmails t)) =
     (\<lparr>http_status = 200,
       http_body = Json [(''message'', ''Webhook processed successfully''),
                         (''userId'', ''user_1'')]\<rparr>,
      s\<lparr>users := (users s)(''user_1'' \<mapsto> writtenUser sampleUserData (users s ''user_1'')),
        userEmails := emailRows ''user_1'' [sampleEntry] (userEmails s)\<rparr>)"
proof -
  have e: "email_addresses sampleUser = [sampleEntry]" and i: "data_id sampleUser = ''user_1''"
    by (simp_all add: sampleUser_def sampleUserWith_def)
  show ?thesis
    by (simp add: POST1_def POST1_try_def sample_parse validated_prisma(1)[OF e] sample_userData)
      (simp add: e i)
qed

lemma sample_rows:
  "writtenUser sampleUserData None = sampleUserRow"
  "writtenUser sampleUserData (Some oldUserRow) = sampleUserRow"
  "emailRows ''user_1'' [sampleEntry] m ''idn_1'' = Some (writtenRow ''user_1'' sampleEntry (m ''idn_1''))"
  by (simp_all add: writtenUser_def create_user_def update_user_def sampleUserData_def
      sampleUserRow_def oldUserRow_def column_def assign_def emailRows_def sampleEntry_def)

section \<open>The calls of the handler\<close>







section \<open>Idempotence\<close>

lemma POST1_prisma_Body:
  assumes "webhookSchema1 X j = Some ev" and "email_addresses (data ev) = p # ps"
  shows "POST1 X prisma s (Body j) =
     (\<lparr>http_status = 200,
       http_body = Json [(''message'', ''Webhook processed successfully''),
                         (''userId'', data_id (data ev))]\<rparr>,
      s\<lparr>users := (users s)(data_id (data ev) \<mapsto>
             writtenUser (userData X (data ev) p (opt_first (external_accounts (data ev))))
               (users s (data_id (data ev)))),
        userEmails := emailRows (data_id (data ev)) (email_addresses (data ev)) (userEmails s)\<rparr>)"
  by (simp add: POST1_def POST1_try_def assms(1) validated_prisma(1)[OF assms(2)])

lemma POST3_prisma_Body:
  assumes "webhookSchema3 X j = Some ev" and "email_addresses (data ev) = p # ps"
  shows "POST3 X prisma s (Body j) =
     (\<lparr>http_status = 200,
       http_body = Json [(''message'', ''Webhook processed successfully'')]\<rparr>,
      s\<lparr>users := (users s)(data_id (data ev) \<mapsto>
             writtenUser (userData X (data ev) p (opt_first (external_accounts (data ev))))
               (users s (data_id (data ev)))),
        userEmails := emailRows (data_id (data ev)) (email_addresses (data ev)) (userEmails s)\<rparr>)"
  by (simp add: POST3_def POST3_try_def assms(1) validated_prisma(2)[OF assms(2)])

lemma POST1_prisma_other:
  "req = NoBody \<or> (\<exists>m. req = Unparsable m) \<or>
   (\<exists>j. req = Body j \<and> (webhookSchema1 X j = None \<or>
      (\<exists>ev. webhookSchema1 X j = Some ev \<and> email_addresses (data ev) = []))) \<Longrightarrow>
   snd (POST1 X db s req) = s"
  by (auto simp: POST1_def POST1_try_def POST1_validated_def)

lemma POST3_prisma_other:
  "req = NoBody \<or> (\<exists>m. req = Unparsable m) \<or>
   (\<exists>j. req = Body j \<and> (webhookSchema3 X j = None \<or>
      (\<exists>ev. webhookSchema3 X j = Some ev \<and> email_addresses (data ev) = []))) \<Longrightarrow>
   snd (POST3 X db s req) = s"
  by (auto simp: POST3_def POST3_try_def POST3_validated_def)

lemma request_cases1:
  obtains (other) "req = NoBody \<or> (\<exists>m. req = Unparsable m) \<or>
     (\<exists>j. req = Body j \<and> (webhookSchema1 X j = None \<or>
        (\<exists>ev. webhookSchema1 X j = Some ev \<and> email_addresses (data ev) = [])))"
  | (valid) j ev p ps where "req = Body j" "webhookSchema1 X j = Some ev"
      "email_addresses (data ev) = p # ps"
proof (cases req)
  case (Body j)
  show ?thesis
  proof (cases "webhookSchema1 X j")
    case None
    with Body show ?thesis by (intro other) simp
  next
    case (Some ev)
    with Body show ?thesis
      by (cases "email_addresses (data ev)") (auto intro: other valid)
  qed
qed (auto intro: other)

lemma request_cases3:
  obtains (other) "req = NoBody \<or> (\<exists>m. req = Unparsable m) \<or>
     (\<exists>j. req = Body j \<and> (webhookSchema3 X j = None \<or>
        (\<exists>ev. webhookSchema3 X j = Some ev \<and> email_addresses (data ev) = [])))"
  | (valid) j ev p ps where "req = Body j" "webhookSchema3 X j = Some ev"
      "email_addresses (data ev) = p # ps"
proof (cases req)
  case (Body j)
  show ?thesis
  proof (cases "webhookSchema3 X j")
    case None
    with Body show ?thesis by (intro other) simp
  next
    case (Some ev)
    with Body show ?thesis
      by (cases "email_addresses (data ev)") (auto intro: other valid)
  qed
qed (auto intro: other)

lemma find_None_set: "find P xs = None \<longleftrightarrow> (\<forall>x\<in>set xs. \<not> P x)"
  by (induction xs) auto

lemma emailRows_other: "k \<notin> email_id ` set es \<Longrightarrow> emailRows uid es m k = m k"
proof -
  assume "k \<notin> email_id ` set es"
  then have "find (\<lambda>e. email_id e = k) (rev es) = None"
    by (auto simp: find_None_set)
  then show ?thesis by (simp add: emailRows_def)
qed

lemma emailRows_entry: "e \<in> set es \<Longrightarrow> emailRows uid es m (email_id e) \<noteq> None"
  by (auto simp: emailRows_def find_None_set split: option.splits)

text \<open>
  C1. On the store, handling the same request a second time changes nothing: the
  store after the second run is the store after the first, and the response is the
  same. For an event that passes validation and has an email address the run answers
  200 and leaves one user row under \<^verbatim>\<open>data.id\<close> with that id, every other user row as
  it was, a row under the id of every entry of \<^verbatim>\<open>email_addresses\<close>, and every other
  email row as it was.
\<close>

theorem webhook_idempotent:
  "POST1 X prisma (snd (POST1 X prisma s req)) req = POST1 X prisma s req \<and>
   (\<forall>j ev. req = Body j \<and> webhookSchema1 X j = Some ev \<and> email_addresses (data ev) \<noteq> [] \<longrightarrow>
      http_status (fst (POST1 X prisma s req)) = 200 \<and>
      (\<exists>row. users (snd (POST1 X prisma s req)) (data_id (data ev)) = Some row \<and>
             row_id row = data_id (data ev)) \<and>
      (\<forall>k. k \<noteq> data_id (data ev) \<longrightarrow> users (snd (POST1 X prisma s req)) k = users s k) \<and>
      (\<forall>e\<in>set (email_addresses (data ev)).
          userEmails (snd (POST1 X prisma s req)) (email_id e) \<noteq> None) \<and>
      (\<forall>k. k \<notin> email_id ` set (email_addresses (data ev)) \<longrightarrow>
          userEmails (snd (POST1 X prisma s req)) k = userEmails s k))"
proof (cases req rule: request_cases1[of _ X])
  case other
  from POST1_prisma_other[OF other, of prisma] other show ?thesis
    by auto
next
  case (valid j ev p ps)
  note B = POST1_prisma_Body[OF valid(2,3)]
  have "POST1 X prisma (snd (POST1 X prisma s req)) req = POST1 X prisma s req"
    unfolding valid(1) B by (simp add: writtenUser_twice emailRows_idem)
  moreover have "http_status (fst (POST1 X prisma s req)) = 200"
    unfolding valid(1) B by simp
  moreover have "\<exists>row. users (snd (POST1 X prisma s req)) (data_id (data ev)) = Some row \<and>
             row_id row = data_id (data ev)"
    unfolding valid(1) B by (simp add: row_id_writtenUser userData_def)
  moreover have "\<forall>k. k \<noteq> data_id (data ev) \<longrightarrow> users (snd (POST1 X prisma s req)) k = users s k"
    unfolding valid(1) B by simp
  moreover have "\<forall>e\<in>set (email_addresses (data ev)).
          userEmails (snd (POST1 X prisma s req)) (email_id e) \<noteq> None"
    unfolding valid(1) B using emailRows_entry by fastforce
  moreover have "\<forall>k. k \<notin> email_id ` set (email_addresses (data ev)) \<longrightarrow>
          userEmails (snd (POST1 X prisma s req)) k = userEmails s k"
    unfolding valid(1) B by (simp add: emailRows_other)
  ultimately show ?thesis using valid(1,2) by simp
qed

theorem webhook_idempotent_witness:
  "webhookSchema1 sampleExternals sampleEvent =
     Some \<lparr>data = sampleUser, event_type = ''user.created''\<rparr> \<and>
   email_addresses sampleUser = [sampleEntry] \<and>
   POST1 sampleExternals prisma (snd (POST1 sampleExternals prisma emptyStore (Body sampleEvent)))
     (Body sampleEvent) =
   POST1 sampleExternals prisma emptyStore (Body sampleEvent) \<and>
   http_status (fst (POST1 sampleExternals prisma emptyStore (Body sampleEvent))) = 200 \<and>
   users (snd (POST1 sampleExternals prisma emptyStore (Body sampleEvent))) ''user_1'' =
     Some sampleUserRow \<and>
   userEmails (snd (POST1 sampleExternals prisma emptyStore (Body sampleEvent))) ''idn_1'' =
     Some \<lparr>ue_id = ''idn_1'', userId = ''user_1'', emailAddress = ''ada@example.com'',
           verificationStatus = ''verified'', verificationStrategy = ''from_oauth_google''\<rparr>"
proof -
  have h: "webhookSchema1 sampleExternals sampleEvent =
      Some \<lparr>data = sampleUser, event_type = ''user.created''\<rparr>"
    by (simp add: sampleEvent_def sample_parse)
  have e: "email_addresses sampleUser = [sampleEntry]"
    by (simp add: sampleUser_def sampleUserWith_def)
  have r: "users (snd (POST1 sampleExternals prisma emptyStore (Body sampleEvent))) ''user_1'' =
      Some sampleUserRow \<and>
    userEmails (snd (POST1 sampleExternals prisma emptyStore (Body sampleEvent))) ''idn_1'' =
      Some \<lparr>ue_id = ''idn_1'', userId = ''user_1'', emailAddress = ''ada@example.com'',
            verificationStatus = ''verified'', verificationStrategy = ''from_oauth_google''\<rparr>"
    by (simp add: sampleEvent_def sample_POST1 sample_rows emptyStore_def)
      (simp add: writtenRow_def sampleEntry_def)
  from webhook_idempotent[of sampleExternals emptyStore "Body sampleEvent"] h e r
  show ?thesis by simp
qed

section \<open>What an upsert overwrites\<close>

lemma userData_defined:
  "firstName (userData X d p a) \<noteq> Undefined"
  "lastName (userData X d p a) \<noteq> Undefined"
  "imageUrl (userData X d p a) \<noteq> Undefined"
  "oauthProvider (userData X d p a) \<noteq> Undefined"
  "oauthId (userData X d p a) \<noteq> Undefined"
  "oauthScopes (userData X d p a) \<noteq> Undefined"
  "externalId (userData X d p a) = external_id d"
  by (simp_all add: userData_def nullish_Null_defined)

lemma update_user_overwrites:
  "external_id d \<noteq> Undefined \<Longrightarrow>
   update_user (userData X d p a) old = create_user (userData X d p a)"
  by (simp add: update_user_def create_user_def assign_defined userData_defined)

lemma writtenUser_overwrites:
  "external_id d \<noteq> Undefined \<Longrightarrow>
   writtenUser (userData X d p a) old = create_user (userData X d p a)"
  by (simp add: writtenUser_def update_user_overwrites split: option.splits)

text \<open>
  C5, as amended. In the first handler and in the third, for every event that passes
  validation, has an email address and names a user id that has a row, the row under
  that id after the run is the \<^verbatim>\<open>create\<close> row of the event: every column has the value
  normalised from the event, NULL where that value is \<^verbatim>\<open>null\<close>, and nothing of the
  old row is left. It is the row that the same event leaves in any store that had
  no row for the id. The upsert of the second handler does not overwrite so: on a
  table that has a row for the id it writes \<^verbatim>\<open>emailAddress\<close>, and of
  \<^verbatim>\<open>firstName\<close>, \<^verbatim>\<open>lastName\<close> and \<^verbatim>\<open>imageUrl\<close> each one whose value in the event
  is a string; one whose value is \<^verbatim>\<open>null\<close> or absent keeps what the row had.
\<close>

theorem user_upsert_overwrites:
  assumes "users s (data_id (data ev)) = Some old"
    and "email_addresses (data ev) = p # ps"
    and "ud = userData X (data ev) p (opt_first (external_accounts (data ev)))"
    and "users s0 (data_id (data ev)) = None"
  shows "(webhookSchema1 X j = Some ev \<longrightarrow>
            users (snd (POST1 X prisma s (Body j))) (data_id (data ev)) = Some (create_user ud) \<and>
            users (snd (POST1 X prisma s0 (Body j))) (data_id (data ev)) = Some (create_user ud)) \<and>
         (webhookSchema3 X j = Some ev \<longrightarrow>
            users (snd (POST3 X prisma s (Body j))) (data_id (data ev)) = Some (create_user ud) \<and>
            users (snd (POST3 X prisma s0 (Body j))) (data_id (data ev)) = Some (create_user ud)) \<and>
         row_firstName (create_user ud) = column (firstName ud) \<and>
         row_lastName (create_user ud) = column (lastName ud) \<and>
         row_imageUrl (create_user ud) = column (imageUrl ud) \<and>
         column (Null :: string js) = None \<and>
         (\<forall>tbl uid old2 emailAddr firstNm lastNm imageU.
            tbl uid = Some old2 \<longrightarrow>
            snd (POST2_upsert tbl uid emailAddr firstNm lastNm imageU) uid =
              Some (old2\<lparr>u2_emailAddress := emailAddr,
                         u2_firstName := (case firstNm of
                            Val v \<Rightarrow> Some v | Null \<Rightarrow> u2_firstName old2
                          | Undefined \<Rightarrow> u2_firstName old2),
                         u2_lastName := (case lastNm of
                            Val v \<Rightarrow> Some v | Null \<Rightarrow> u2_lastName old2
                          | Undefined \<Rightarrow> u2_lastName old2),
                         u2_imageUrl := (case imageU of
                            Val v \<Rightarrow> Some v | Null \<Rightarrow> u2_imageUrl old2
                          | Undefined \<Rightarrow> u2_imageUrl old2)\<rparr>))"
proof -
  have 1: "users (snd (POST1 X prisma t (Body j))) (data_id (data ev)) = Some (create_user ud)"
    if "webhookSchema1 X j = Some ev" for t
    using that webhookSchema_external_id[of nullable_optional X j ev]
    by (simp add: POST1_prisma_Body[OF that assms(2)] writtenUser_overwrites assms(3)
        webhookSchema1_def)
  have 3: "users (snd (POST3 X prisma t (Body j))) (data_id (data ev)) = Some (create_user ud)"
    if "webhookSchema3 X j = Some ev" for t
    using that webhookSchema_external_id[of nullable X j ev]
    by (simp add: POST3_prisma_Body[OF that assms(2)] writtenUser_overwrites assms(3)
        webhookSchema3_def)
  have 2: "snd (POST2_upsert tbl uid emailAddr firstNm lastNm imageU) uid =
              Some (old2\<lparr>u2_emailAddress := emailAddr,
                         u2_firstName := (case firstNm of
                            Val v \<Rightarrow> Some v | Null \<Rightarrow> u2_firstName old2
                          | Undefined \<Rightarrow> u2_firstName old2),
                         u2_lastName := (case lastNm of
                            Val v \<Rightarrow> Some v | Null \<Rightarrow> u2_lastName old2
                          | Undefined \<Rightarrow> u2_lastName old2),
                         u2_imageUrl := (case imageU of
                            Val v \<Rightarrow> Some v | Null \<Rightarrow> u2_imageUrl old2
                          | Undefined \<Rightarrow> u2_imageUrl old2)\<rparr>)"
    if "tbl uid = Some old2" for tbl uid old2 emailAddr firstNm lastNm imageU
    using that
    by (simp add: POST2_upsert_def prisma_user2_upsert_def upsertArgs2_def nullish_def
        assign_def Let_def split: js.splits)
  have c: "row_firstName (create_user ud) = column (firstName ud) \<and>
         row_lastName (create_user ud) = column (lastName ud) \<and>
         row_imageUrl (create_user ud) = column (imageUrl ud) \<and>
         column (Null :: string js) = None"
    by (simp add: create_user_def column_def)
  from 1 3 c 2 show ?thesis
    by (intro conjI impI allI) (simp_all only:)
qed

theorem user_upsert_overwrites_witness:
  "users usedStore ''user_1'' = Some oldUserRow \<and>
   users emptyStore ''user_1'' = None \<and>
   webhookSchema1 sampleExternals sampleEvent =
     Some \<lparr>data = sampleUser, event_type = ''user.created''\<rparr> \<and>
   users (snd (POST1 sampleExternals prisma usedStore (Body sampleEvent))) ''user_1'' =
     Some sampleUserRow \<and>
   users (snd (POST1 sampleExternals prisma emptyStore (Body sampleEvent))) ''user_1'' =
     Some sampleUserRow \<and>
   row_imageUrl oldUserRow = Some ''http://example.com/old.png'' \<and>
   row_imageUrl sampleUserRow = None \<and>
   snd (POST2_upsert [''user_1'' \<mapsto> oldUser2Row\<lparr>u2_imageUrl := Some ''http://example.com/old.png''\<rparr>]
          ''user_1'' ''ada@example.com'' Null (Val ''Lovelace'') Undefined) ''user_1'' =
     Some \<lparr>u2_id = ''user_1'', u2_emailAddress = ''ada@example.com'', u2_firstName = Some ''Old'',
           u2_lastName = Some ''Lovelace'', u2_imageUrl = Some ''http://example.com/old.png''\<rparr>"
proof -
  have h: "webhookSchema1 sampleExternals sampleEvent =
      Some \<lparr>data = sampleUser, event_type = ''user.created''\<rparr>"
    by (simp add: sampleEvent_def sample_parse)
  have u: "users usedStore (data_id (data \<lparr>data = sampleUser, event_type = ''user.created''\<rparr>)) =
      Some oldUserRow"
    by (simp add: usedStore_def sampleUser_def sampleUserWith_def)
  have n: "users emptyStore (data_id (data \<lparr>data = sampleUser, event_type = ''user.created''\<rparr>)) =
      None"
    by (simp add: emptyStore_def)
  have e: "email_addresses (data \<lparr>data = sampleUser, event_type = ''user.created''\<rparr>) =
      sampleEntry # []"
    by (simp add: sampleUser_def sampleUserWith_def)
  have c: "create_user sampleUserData = sampleUserRow"
    by (simp add: create_user_def sampleUserData_def sampleUserRow_def column_def)
  note T = user_upsert_overwrites[OF u e refl n, of sampleExternals sampleEvent]
  have t: "[''user_1'' \<mapsto> oldUser2Row\<lparr>u2_imageUrl := Some ''http://example.com/old.png''\<rparr>]
      ''user_1'' = Some (oldUser2Row\<lparr>u2_imageUrl := Some ''http://example.com/old.png''\<rparr>)"
    by simp
  note second = T[THEN conjunct2, THEN conjunct2, THEN conjunct2, THEN conjunct2, THEN conjunct2,
      THEN conjunct2, rule_format,
      where tbl = "[''user_1'' \<mapsto> oldUser2Row\<lparr>u2_imageUrl := Some ''http://example.com/old.png''\<rparr>]"
        and uid = "''user_1''", OF t]
  have p2: "snd (POST2_upsert
          [''user_1'' \<mapsto> oldUser2Row\<lparr>u2_imageUrl := Some ''http://example.com/old.png''\<rparr>]
          ''user_1'' ''ada@example.com'' Null (Val ''Lovelace'') Undefined) ''user_1'' =
     Some \<lparr>u2_id = ''user_1'', u2_emailAddress = ''ada@example.com'', u2_firstName = Some ''Old'',
           u2_lastName = Some ''Lovelace'', u2_imageUrl = Some ''http://example.com/old.png''\<rparr>"
    unfolding second by (simp add: oldUser2Row_def)
  from T[THEN conjunct1] h
  have p1: "users (snd (POST1 sampleExternals prisma usedStore (Body sampleEvent))) ''user_1'' =
       Some sampleUserRow \<and>
     users (snd (POST1 sampleExternals prisma emptyStore (Body sampleEvent))) ''user_1'' =
       Some sampleUserRow"
    by (simp add: sample_userData c) (simp add: sampleUser_def sampleUserWith_def)
  from p1 p2 h show ?thesis
    by (simp add: usedStore_def emptyStore_def oldUserRow_def sampleUserRow_def)
qed

text \<open>
  C5 as stated fails on the upsert of the second handler: with \<^verbatim>\<open>first_name\<close>
  \<^verbatim>\<open>null\<close> its \<^verbatim>\<open>update\<close> object has \<^verbatim>\<open>firstName: undefined\<close>, so the stored first
  name stays, while a fresh insert of the same event stores NULL.
\<close>

theorem second_handler_keeps_old_name:
  "snd (POST2_upsert [''user_1'' \<mapsto> oldUser2Row] ''user_1'' ''ada@example.com'' Null Null Null)
     ''user_1'' =
     Some \<lparr>u2_id = ''user_1'', u2_emailAddress = ''ada@example.com'', u2_firstName = Some ''Old'',
           u2_lastName = None, u2_imageUrl = None\<rparr> \<and>
   snd (POST2_upsert Map.empty ''user_1'' ''ada@example.com'' Null Null Null) ''user_1'' =
     Some \<lparr>u2_id = ''user_1'', u2_emailAddress = ''ada@example.com'', u2_firstName = None,
           u2_lastName = None, u2_imageUrl = None\<rparr>"
  by (simp add: POST2_upsert_def prisma_user2_upsert_def upsertArgs2_def oldUser2Row_def
      nullish_def assign_def column_def Let_def)

lemma emailRows_existing:
  assumes "m k = Some r"
  shows "\<exists>r'. emailRows uid es m k = Some r' \<and> userId r' = userId r \<and> ue_id r' = ue_id r"
  using assms by (auto simp: emailRows_def writtenRow_def split: option.splits)

lemma emailRows_last:
  assumes "m k = Some r" and "find (\<lambda>e. email_id e = k) (rev es) = Some e"
  shows "emailRows uid es m k =
     Some (r\<lparr>emailAddress := email_address e,
              verificationStatus := status (verification e),
              verificationStrategy := strategy (verification e)\<rparr>)"
  using assms by (simp add: emailRows_def writtenRow_def)

text \<open>
  C9. The \<^verbatim>\<open>update\<close> object of an email upsert has the three members
  \<^verbatim>\<open>emailAddress\<close>, \<^verbatim>\<open>verificationStatus\<close> and \<^verbatim>\<open>verificationStrategy\<close> and no
  other. So an email row that is in the store before a run of the first or the third
  handler is there after it with the \<^verbatim>\<open>userId\<close> and the \<^verbatim>\<open>id\<close> it had, whatever the
  request; and when the event passes validation and has an entry with the id of the
  row, the row is the old row with those three columns taken from the last such entry:
  a row that belongs to another user keeps that user.
\<close>

theorem email_update_keeps_owner:
  assumes "userEmails s k = Some r"
  shows "(\<exists>r'. userEmails (snd (POST1 X prisma s req)) k = Some r' \<and>
              userId r' = userId r \<and> ue_id r' = ue_id r) \<and>
         (\<exists>r'. userEmails (snd (POST3 X prisma s req)) k = Some r' \<and>
              userId r' = userId r \<and> ue_id r' = ue_id r) \<and>
         (\<forall>j ev e. req = Body j \<and> webhookSchema1 X j = Some ev \<and>
             find (\<lambda>e. email_id e = k) (rev (email_addresses (data ev))) = Some e \<longrightarrow>
             userEmails (snd (POST1 X prisma s req)) k =
               Some (r\<lparr>emailAddress := email_address e,
                        verificationStatus := status (verification e),
                        verificationStrategy := strategy (verification e)\<rparr>)) \<and>
         (\<forall>j ev e. req = Body j \<and> webhookSchema3 X j = Some ev \<and>
             find (\<lambda>e. email_id e = k) (rev (email_addresses (data ev))) = Some e \<longrightarrow>
             userEmails (snd (POST3 X prisma s req)) k =
               Some (r\<lparr>emailAddress := email_address e,
                        verificationStatus := status (verification e),
                        verificationStrategy := strategy (verification e)\<rparr>)) \<and>
         (\<forall>uid email. eu_update (emailArgs uid email) =
             \<lparr>set_emailAddress = email_address email,
              set_verificationStatus = status (verification email),
              set_verificationStrategy = strategy (verification email)\<rparr>)"
proof -
  have a1: "\<exists>r'. userEmails (snd (POST1 X prisma s req)) k = Some r' \<and>
              userId r' = userId r \<and> ue_id r' = ue_id r"
  proof (cases req rule: request_cases1[of _ X])
    case other
    from POST1_prisma_other[OF other, of prisma s] assms show ?thesis by simp
  next
    case (valid j ev p ps)
    show ?thesis
      unfolding valid(1) POST1_prisma_Body[OF valid(2,3)]
      using emailRows_existing[where m = "userEmails s" and k = k, OF assms] by simp
  qed
  have a3: "\<exists>r'. userEmails (snd (POST3 X prisma s req)) k = Some r' \<and>
              userId r' = userId r \<and> ue_id r' = ue_id r"
  proof (cases req rule: request_cases3[of _ X])
    case other
    from POST3_prisma_other[OF other, of prisma s] assms show ?thesis by simp
  next
    case (valid j ev p ps)
    show ?thesis
      unfolding valid(1) POST3_prisma_Body[OF valid(2,3)]
      using emailRows_existing[where m = "userEmails s" and k = k, OF assms] by simp
  qed
  have b1: "userEmails (snd (POST1 X prisma s (Body j))) k =
               Some (r\<lparr>emailAddress := email_address e,
                        verificationStatus := status (verification e),
                        verificationStrategy := strategy (verification e)\<rparr>)"
    if p: "webhookSchema1 X j = Some ev"
      and f: "find (\<lambda>e. email_id e = k) (rev (email_addresses (data ev))) = Some e" for j ev e
  proof (cases "email_addresses (data ev)")
    case Nil
    with f show ?thesis by simp
  next
    case (Cons p' ps')
    show ?thesis
      unfolding POST1_prisma_Body[OF p Cons] using emailRows_last[where m = "userEmails s" and k = k, OF assms f] by simp
  qed
  have b3: "userEmails (snd (POST3 X prisma s (Body j))) k =
               Some (r\<lparr>emailAddress := email_address e,
                        verificationStatus := status (verification e),
                        verificationStrategy := strategy (verification e)\<rparr>)"
    if p: "webhookSchema3 X j = Some ev"
      and f: "find (\<lambda>e. email_id e = k) (rev (email_addresses (data ev))) = Some e" for j ev e
  proof (cases "email_addresses (data ev)")
    case Nil
    with f show ?thesis by simp
  next
    case (Cons p' ps')
    show ?thesis
      unfolding POST3_prisma_Body[OF p Cons] using emailRows_last[where m = "userEmails s" and k = k, OF assms f] by simp
  qed
  from a1 a3 b1 b3 show ?thesis
    by (simp add: emailArgs_def)
qed

theorem email_update_keeps_owner_witness:
  "userEmails usedStore ''idn_1'' = Some oldEmailRow \<and>
   userId oldEmailRow = ''user_0'' \<and>
   webhookSchema1 sampleExternals sampleEvent =
     Some \<lparr>data = sampleUser, event_type = ''user.created''\<rparr> \<and>
   data_id sampleUser = ''user_1'' \<and>
   find (\<lambda>e. email_id e = ''idn_1'') (rev (email_addresses sampleUser)) = Some sampleEntry \<and>
   userEmails (snd (POST1 sampleExternals prisma usedStore (Body sampleEvent))) ''idn_1'' =
     Some \<lparr>ue_id = ''idn_1'', userId = ''user_0'', emailAddress = ''ada@example.com'',
           verificationStatus = ''verified'', verificationStrategy = ''from_oauth_google''\<rparr>"
proof -
  have h: "webhookSchema1 sampleExternals sampleEvent =
      Some \<lparr>data = sampleUser, event_type = ''user.created''\<rparr>"
    by (simp add: sampleEvent_def sample_parse)
  have u: "userEmails usedStore ''idn_1'' = Some oldEmailRow"
    by (simp add: usedStore_def)
  have f: "find (\<lambda>e. email_id e = ''idn_1'') (rev (email_addresses sampleUser)) = Some sampleEntry"
    by (simp add: sampleUser_def sampleUserWith_def sampleEntry_def)
  from email_update_keeps_owner[OF u, of sampleExternals "Body sampleEvent"] h u f
  show ?thesis
    by (auto simp: oldEmailRow_def sampleEntry_def sampleUser_def sampleUserWith_def)
qed

section \<open>Errors of the client\<close>

text \<open>
  C8. An error that a call of the client throws ends the \<^verbatim>\<open>try\<close> block of the first
  handler with that error, wherever it is thrown (by the user upsert or by an email
  upsert of the loop), and the handler answers with the response that its \<^verbatim>\<open>catch\<close>
  block makes of it; nothing is undone. For a \<^verbatim>\<open>PrismaClientKnownRequestError\<close> whose
  code is not the name of a member that every object inherits (no Prisma code is) the
  status is 409 for P2002, 400 for P2014 and for P2003, and 500 for any other code;
  for anything else that is thrown the status is 500.
\<close>

theorem prisma_error_status:
  assumes "code \<notin> set objectPrototype"
  shows "http_status (POST1_catch (PrismaClientKnownRequestError code m)) =
           (if code = ''P2002'' then 409
            else if code = ''P2014'' \<or> code = ''P2003'' then 400
            else 500) \<and>
         http_status (POST1_catch (Error m)) = 500 \<and>
         http_status (POST1_catch NotAnError) = 500 \<and>
         (\<forall>e s'. POST1_try X db s req = (Inl e, s') \<longrightarrow>
            POST1 X db s req = (POST1_catch e, s')) \<and>
         (\<forall>j ev p ps ud e s1.
            webhookSchema1 X j = Some ev \<and> email_addresses (data ev) = p # ps \<and>
            ud = userData X (data ev) p (opt_first (external_accounts (data ev))) \<and>
            user_upsert db s \<lparr>uu_where = data_id (data ev), uu_update = ud, uu_create = ud\<rparr> =
              (Inl e, s1) \<longrightarrow>
            POST1_try X db s (Body j) = (Inl e, s1)) \<and>
         (\<forall>j ev p ps ud row e s1 s2.
            webhookSchema1 X j = Some ev \<and> email_addresses (data ev) = p # ps \<and>
            ud = userData X (data ev) p (opt_first (external_accounts (data ev))) \<and>
            user_upsert db s \<lparr>uu_where = data_id (data ev), uu_update = ud, uu_create = ud\<rparr> =
              (Inr row, s1) \<and>
            storeEmails db (data_id (data ev)) s1 (email_addresses (data ev)) = (Some e, s2) \<longrightarrow>
            POST1_try X db s (Body j) = (Inl e, s2)) \<and>
         (\<forall>uid pre email rest e s0 s1 s2.
            storeEmails db uid s0 pre = (None, s1) \<and>
            userEmail_upsert db s1 (emailArgs uid email) = (Inl e, s2) \<longrightarrow>
            storeEmails db uid s0 (pre @ email # rest) = (Some e, s2))"
proof -
  have 1: "http_status (POST1_catch (PrismaClientKnownRequestError code m)) =
           (if code = ''P2002'' then 409
            else if code = ''P2014'' \<or> code = ''P2003'' then 400
            else 500)"
    using assms by (simp add: POST1_catch_def prismaErrors_def)
  have other: "http_status (POST1_catch (Error m)) = 500"
    "http_status (POST1_catch NotAnError) = 500"
    by (simp_all add: POST1_catch_def)
  have 2: "\<forall>e s'. POST1_try X db s req = (Inl e, s') \<longrightarrow>
            POST1 X db s req = (POST1_catch e, s')"
    by (simp add: POST1_def)
  have 3: "POST1_try X db s (Body j) = (Inl e, s1)"
    if "webhookSchema1 X j = Some ev" "email_addresses (data ev) = p # ps"
      "ud = userData X (data ev) p (opt_first (external_accounts (data ev)))"
      "user_upsert db s \<lparr>uu_where = data_id (data ev), uu_update = ud, uu_create = ud\<rparr> =
         (Inl e, s1)" for j ev p ps ud e s1
    using that(1,2,4) unfolding that(3)
    by (simp add: POST1_try_def POST1_validated_def Let_def del: storeEmails.simps)
  have 4: "POST1_try X db s (Body j) = (Inl e, s2)"
    if "webhookSchema1 X j = Some ev" "email_addresses (data ev) = p # ps"
      "ud = userData X (data ev) p (opt_first (external_accounts (data ev)))"
      "user_upsert db s \<lparr>uu_where = data_id (data ev), uu_update = ud, uu_create = ud\<rparr> =
         (Inr row, s1)"
      "storeEmails db (data_id (data ev)) s1 (email_addresses (data ev)) = (Some e, s2)"
    for j ev p ps ud row e s1 s2
  proof -
    have "POST1_validated X db s (data ev) =
      (case user_upsert db s \<lparr>uu_where = data_id (data ev), uu_update = ud, uu_create = ud\<rparr> of
         (Inl e, s1) \<Rightarrow> (Inl e, s1)
       | (Inr updatedUser, s1) \<Rightarrow>
           (case storeEmails db (data_id (data ev)) s1 (email_addresses (data ev)) of
              (Some e, s2) \<Rightarrow> (Inl e, s2)
            | (None, s2) \<Rightarrow>
                (Inr \<lparr>http_status = 200,
                      http_body = Json [(''message'', ''Webhook processed successfully''),
                                        (''userId'', row_id updatedUser)]\<rparr>, s2)))"
      unfolding POST1_validated_def by (simp add: that(2,3) Let_def del: storeEmails.simps)
    then show ?thesis
      by (simp add: POST1_try_def that(1,4,5) del: storeEmails.simps)
  qed
  have all3: "\<forall>j ev p ps ud e s1.
            webhookSchema1 X j = Some ev \<and> email_addresses (data ev) = p # ps \<and>
            ud = userData X (data ev) p (opt_first (external_accounts (data ev))) \<and>
            user_upsert db s \<lparr>uu_where = data_id (data ev), uu_update = ud, uu_create = ud\<rparr> =
              (Inl e, s1) \<longrightarrow>
            POST1_try X db s (Body j) = (Inl e, s1)"
  proof (intro allI impI, elim conjE)
    fix j ev p ps ud e s1
    assume "webhookSchema1 X j = Some ev" "email_addresses (data ev) = p # ps"
      "ud = userData X (data ev) p (opt_first (external_accounts (data ev)))"
      "user_upsert db s \<lparr>uu_where = data_id (data ev), uu_update = ud, uu_create = ud\<rparr> =
         (Inl e, s1)"
    then show "POST1_try X db s (Body j) = (Inl e, s1)" by (rule 3)
  qed
  have all4: "\<forall>j ev p ps ud row e s1 s2.
            webhookSchema1 X j = Some ev \<and> email_addresses (data ev) = p # ps \<and>
            ud = userData X (data ev) p (opt_first (external_accounts (data ev))) \<and>
            user_upsert db s \<lparr>uu_where = data_id (data ev), uu_update = ud, uu_create = ud\<rparr> =
              (Inr row, s1) \<and>
            storeEmails db (data_id (data ev)) s1 (email_addresses (data ev)) = (Some e, s2) \<longrightarrow>
            POST1_try X db s (Body j) = (Inl e, s2)"
  proof (intro allI impI, elim conjE)
    fix j ev p ps ud row e s1 s2
    assume "webhookSchema1 X j = Some ev" "email_addresses (data ev) = p # ps"
      "ud = userData X (data ev) p (opt_first (external_accounts (data ev)))"
      "user_upsert db s \<lparr>uu_where = data_id (data ev), uu_update = ud, uu_create = ud\<rparr> =
         (Inr row, s1)"
      "storeEmails db (data_id (data ev)) s1 (email_addresses (data ev)) = (Some e, s2)"
    then show "POST1_try X db s (Body j) = (Inl e, s2)" by (rule 4)
  qed
  have all5: "\<forall>uid pre email rest e s0 s1 s2.
            storeEmails db uid s0 pre = (None, s1) \<and>
            userEmail_upsert db s1 (emailArgs uid email) = (Inl e, s2) \<longrightarrow>
            storeEmails db uid s0 (pre @ email # rest) = (Some e, s2)"
  proof (intro allI impI, elim conjE)
    fix uid pre email rest e s0 s1 s2
    assume "storeEmails db uid s0 pre = (None, s1)"
      "userEmail_upsert db s1 (emailArgs uid email) = (Inl e, s2)"
    then show "storeEmails db uid s0 (pre @ email # rest) = (Some e, s2)"
      by (rule storeEmails_append_throw)
  qed
  show ?thesis
    by (intro conjI) (rule 1, rule other(1), rule other(2), rule 2, rule all3, rule all4, rule all5)
qed

theorem prisma_error_status_witness:
  "''P2003'' \<notin> set objectPrototype \<and>
   ''P2025'' \<notin> set objectPrototype \<and>
   POST1 sampleExternals (emailsFail (PrismaClientKnownRequestError ''P2003'' ''no user''))
     emptyStore (Body sampleEvent) =
     (POST1_catch (PrismaClientKnownRequestError ''P2003'' ''no user''),
      emptyStore\<lparr>users := [''user_1'' \<mapsto> sampleUserRow]\<rparr>) \<and>
   http_status (POST1_catch (PrismaClientKnownRequestError ''P2003'' ''no user'')) = 400 \<and>
   http_status (POST1_catch (PrismaClientKnownRequestError ''P2025'' ''not found'')) = 500"
proof -
  let ?e = "PrismaClientKnownRequestError ''P2003'' ''no user''"
  let ?ev = "\<lparr>data = sampleUser, event_type = ''user.created''\<rparr>"
  have n: "''P2003'' \<notin> set objectPrototype" "''P2025'' \<notin> set objectPrototype"
    by (simp_all add: objectPrototype_def)
  have h: "webhookSchema1 sampleExternals sampleEvent = Some ?ev"
    by (simp add: sampleEvent_def sample_parse)
  have e: "email_addresses (data ?ev) = sampleEntry # []" and i: "data_id (data ?ev) = ''user_1''"
    by (simp_all add: sampleUser_def sampleUserWith_def)
  have ud: "sampleUserData =
      userData sampleExternals (data ?ev) sampleEntry (opt_first (external_accounts (data ?ev)))"
    by (simp add: sample_userData)
  have u: "user_upsert (emailsFail ?e) emptyStore
      \<lparr>uu_where = data_id (data ?ev), uu_update = sampleUserData, uu_create = sampleUserData\<rparr> =
      (Inr sampleUserRow, emptyStore\<lparr>users := [''user_1'' \<mapsto> sampleUserRow]\<rparr>)"
  proof -
    have "prisma_user_upsert emptyStore
        \<lparr>uu_where = ''user_1'', uu_update = sampleUserData, uu_create = sampleUserData\<rparr> =
        (Inr (writtenUser sampleUserData (users emptyStore ''user_1'')),
         emptyStore\<lparr>users := (users emptyStore)(''user_1'' \<mapsto>
           writtenUser sampleUserData (users emptyStore ''user_1''))\<rparr>)"
      by (rule prisma_user_upsert_ok) (simp add: sampleUserData_def)
    then show ?thesis
      unfolding i by (simp add: emailsFail_def emptyStore_def sample_rows)
  qed
  have l: "storeEmails (emailsFail ?e) (data_id (data ?ev))
      (emptyStore\<lparr>users := [''user_1'' \<mapsto> sampleUserRow]\<rparr>) (email_addresses (data ?ev)) =
      (Some ?e, emptyStore\<lparr>users := [''user_1'' \<mapsto> sampleUserRow]\<rparr>)"
    by (simp add: emailsFail_def sampleUser_def sampleUserWith_def)
  note T = prisma_error_status[OF n(1), of "''no user''" sampleExternals "emailsFail ?e" emptyStore
      "Body sampleEvent"]
  note caught = T[THEN conjunct2, THEN conjunct2, THEN conjunct2, THEN conjunct1, rule_format]
  note thrown_in_loop = T[THEN conjunct2, THEN conjunct2, THEN conjunct2, THEN conjunct2,
      THEN conjunct2, THEN conjunct1, rule_format]
  have t: "POST1_try sampleExternals (emailsFail ?e) emptyStore (Body sampleEvent) =
      (Inl ?e, emptyStore\<lparr>users := [''user_1'' \<mapsto> sampleUserRow]\<rparr>)"
    by (rule thrown_in_loop) (intro conjI, rule h, rule e, rule ud, rule u, rule l)
  have "POST1 sampleExternals (emailsFail ?e) emptyStore (Body sampleEvent) =
      (POST1_catch ?e, emptyStore\<lparr>users := [''user_1'' \<mapsto> sampleUserRow]\<rparr>)"
    by (rule caught) (rule t)
  moreover from T[THEN conjunct1] have "http_status (POST1_catch ?e) = 400" by simp
  moreover from prisma_error_status[OF n(2), of "''not found''" sampleExternals prisma emptyStore
      NoBody, THEN conjunct1]
  have "http_status (POST1_catch (PrismaClientKnownRequestError ''P2025'' ''not found'')) = 500"
    by simp
  ultimately show ?thesis using n by simp
qed

theorem event_type_ignored_witness:
  "map_of [(''data'', sampleData sampleEmails), (''type'', JStr ''user.created'')] ''type'' =
     Some (JStr ''user.created'') \<and>
   map_of [(''data'', sampleData sampleEmails), (''type'', JStr ''user.deleted'')] ''type'' =
     Some (JStr ''user.deleted'') \<and>
   POST1 sampleExternals (recording prisma) (emptyStore, [])
     (Body (sampleEventWith sampleEmails ''user.created'')) =
   POST1 sampleExternals (recording prisma) (emptyStore, [])
     (Body (sampleEventWith sampleEmails ''user.deleted'')) \<and>
   http_status (fst (POST1 sampleExternals prisma emptyStore
     (Body (sampleEventWith sampleEmails ''user.deleted'')))) = 200 \<and>
   users (snd (POST1 sampleExternals prisma emptyStore
     (Body (sampleEventWith sampleEmails ''user.deleted'')))) ''user_1'' = Some sampleUserRow"
proof -
  let ?k1 = "[(''data'', sampleData sampleEmails), (''type'', JStr ''user.created'')]"
  let ?k2 = "[(''data'', sampleData sampleEmails), (''type'', JStr ''user.deleted'')]"
  have a: "\<forall>k. k \<noteq> ''type'' \<longrightarrow> map_of ?k1 k = map_of ?k2 k" by simp
  have b: "map_of ?k1 ''type'' = Some (JStr ''user.created'')" by simp
  have c: "map_of ?k2 ''type'' = Some (JStr ''user.deleted'')" by simp
  from event_type_ignored[OF a b c, of sampleExternals "recording prisma" "(emptyStore, [])"] b c
  show ?thesis
    by (simp add: sampleEventWith_def[symmetric] sample_POST1 sample_rows emptyStore_def)
qed

end
